theory Spec2Isabelle
  imports Main
begin

section \<open>Completion sync (src/lib/peloton/completion-sync.ts)\<close>

text \<open>
  A shallow embedding of \<^verbatim>\<open>syncCompletedWorkouts\<close> and of the helpers it uses.
  The two collaborators of the function, the Peloton client and the Supabase client, are
  arguments of the function in the source and arguments of the model. Every call to the
  planned-workout store is appended to a trace, so that statements about "which writes were
  issued" are statements about the value the model returns.

  JavaScript numbers are modelled by \<open>int\<close> (epoch seconds and milliseconds, sort orders)
  and \<open>nat\<close> (counters); rounding of floating-point numbers is outside the model.
\<close>

subsection \<open>Data\<close>

text \<open>What a \<^verbatim>\<open>catch\<close> clause can receive: an \<^verbatim>\<open>Error\<close> object with its message, or
  any other value.\<close>

datatype thrown = ErrorObj string | NonError

text \<open>\<^verbatim>\<open>PelotonWorkout\<close>: the fields the function reads. \<open>w_ride\<close> is \<^verbatim>\<open>ride?.id\<close>:
  \<open>None\<close> when the workout carries no ride.\<close>

record PelotonWorkout =
  w_id :: string
  w_status :: string
  w_ride :: "string option"
  w_created_at :: int

text \<open>A row of \<^verbatim>\<open>planned_workouts\<close> as selected by the eligibility query.\<close>

record planned_row =
  pw_id :: string
  pw_peloton_ride_id :: string
  pw_scheduled_date :: string
  pw_sort_order :: int
  pw_peloton_workout_id :: "string option"

record PlannedWorkoutMatch =
  m_id :: string
  m_peloton_ride_id :: string
  m_sort_order :: int
  m_peloton_workout_id :: "string option"

record CompletionSyncResult =
  success :: bool
  matched :: nat
  error :: "string option"

text \<open>The object passed to \<^verbatim>\<open>.update(...)\<close>. \<open>u_completed_at\<close> is the instant (in
  milliseconds) that the ISO string written by the source denotes.\<close>

record update_payload =
  u_status :: string
  u_completed_at :: int
  u_peloton_workout_id :: string

text \<open>The \<^verbatim>\<open>{ data, error }\<close> pair a Supabase query resolves to; an error is represented
  by its \<^verbatim>\<open>message\<close>.\<close>

record query_result =
  q_data :: "planned_row list option"
  q_error :: "string option"

text \<open>One interaction with the planned-workout store, with what the store answered.\<close>

datatype store_event =
  SelectEv string query_result
  | UpdateEv string update_payload "string option"

text \<open>The Supabase client: the answer to the eligibility query for a user, and the answer
  to an update of one row, which may depend on the interactions that came before. Both
  calls resolve to a value with an \<^verbatim>\<open>error\<close> field, as the source expects by reading that
  field; a query builder that rejects instead is not modelled. The \<^verbatim>\<open>console.error\<close> lines
  of the source are not modelled either.\<close>

record supabase_client =
  select_planned :: "string \<Rightarrow> query_result"
  update_planned :: "store_event list \<Rightarrow> string \<Rightarrow> update_payload \<Rightarrow> string option"

subsection \<open>The Peloton client\<close>

record fetch_options =
  opt_limit :: nat
  opt_joins :: string

record workouts_response =
  r_data :: "PelotonWorkout list"

text \<open>The state of the activity provider as far as the function can see it: for a Peloton
  user, either an error that the fetch raises or the user's workouts, most recent first.\<close>

type_synonym PelotonClient = "string \<Rightarrow> thrown + PelotonWorkout list"

text \<open>Modelled from the spec: \<^verbatim>\<open>PelotonClient.getUserWorkouts\<close> lives in
  \<^verbatim>\<open>src/lib/peloton/client\<close>, which is not among the sources. The spec describes it as
  fetching "a bounded, recent page" whose "page size is a fixed constant" passed as
  \<^verbatim>\<open>limit\<close>, and as an operation that "may raise on auth failure or transport error".
  The model returns the first \<open>limit\<close> workouts of the feed, or raises.\<close>

definition getUserWorkouts ::
  "PelotonClient \<Rightarrow> string \<Rightarrow> fetch_options \<Rightarrow> thrown + workouts_response" where
  "getUserWorkouts peloton pelotonUserId opts =
     (case peloton pelotonUserId of
        Inl e \<Rightarrow> Inl e
      | Inr ws \<Rightarrow> Inr \<lparr>r_data = take (opt_limit opts) ws\<rparr>)"

subsection \<open>Dates\<close>

text \<open>A JavaScript \<^verbatim>\<open>Date\<close>: a time value in milliseconds, or Invalid Date (\<open>None\<close>).
  \<^verbatim>\<open>new Date(v)\<close> clips to the range of \<open>8.64e15\<close> milliseconds around the epoch.\<close>

type_synonym jsdate = "int option"

definition newDate :: "int \<Rightarrow> jsdate" where
  "newDate v = (if \<bar>v\<bar> \<le> 8640000000000000 then Some v else None)"

text \<open>\<^verbatim>\<open>Date.prototype.toISOString\<close> raises a RangeError on Invalid Date. The rendering of
  the instant as text is not modelled: the result is the instant itself.\<close>

definition toISOString :: "jsdate \<Rightarrow> thrown + int" where
  "toISOString d = (case d of None \<Rightarrow> Inl (ErrorObj ''Invalid time value'') | Some v \<Rightarrow> Inr v)"

text \<open>The date libraries the resolver calls (\<^verbatim>\<open>Intl.DateTimeFormat\<close>, \<^verbatim>\<open>toZonedTime\<close> of
  date-fns-tz and \<^verbatim>\<open>format(_, "yyyy-MM-dd")\<close> of date-fns) are third-party code with a
  time-zone database and a process-local zone behind them; they are parameters.
  \<open>tz_known\<close> says whether \<^verbatim>\<open>Intl.DateTimeFormat\<close> accepts the zone name.\<close>

record datelib =
  tz_known :: "string \<Rightarrow> bool"
  toZonedTime :: "jsdate \<Rightarrow> string \<Rightarrow> thrown + jsdate"
  format_ymd :: "jsdate \<Rightarrow> thrown + string"

definition isValidTimezone :: "datelib \<Rightarrow> string \<Rightarrow> bool" where
  "isValidTimezone lib tz = tz_known lib tz"

text \<open>\<^verbatim>\<open>timezone && isValidTimezone(timezone)\<close>: an absent or empty zone name is falsy. An
  exception inside the \<^verbatim>\<open>try\<close> block is caught and falls through to the final
  \<^verbatim>\<open>format(date, ...)\<close>, whose own exception propagates.\<close>

definition timestampToDateInTimezone ::
  "datelib \<Rightarrow> int \<Rightarrow> string option \<Rightarrow> thrown + string" where
  "timestampToDateInTimezone lib timestamp timezone =
     (let date = newDate (timestamp * 1000) in
      case timezone of
        None \<Rightarrow> format_ymd lib date
      | Some tz \<Rightarrow>
          if tz \<noteq> [] \<and> isValidTimezone lib tz then
            (case toZonedTime lib date tz of
               Inl _ \<Rightarrow> format_ymd lib date
             | Inr zonedDate \<Rightarrow>
                 (case format_ymd lib zonedDate of
                    Inl _ \<Rightarrow> format_ymd lib date
                  | Inr s \<Rightarrow> Inr s))
          else format_ymd lib date)"

subsection \<open>The candidate index\<close>

type_synonym ride_index = "string \<rightharpoonup> PlannedWorkoutMatch list"
type_synonym date_index = "string \<rightharpoonup> ride_index"

definition toMatch :: "planned_row \<Rightarrow> PlannedWorkoutMatch" where
  "toMatch pw = \<lparr>m_id = pw_id pw, m_peloton_ride_id = pw_peloton_ride_id pw,
                 m_sort_order = pw_sort_order pw,
                 m_peloton_workout_id = pw_peloton_workout_id pw\<rparr>"

text \<open>One iteration of the loop that fills \<^verbatim>\<open>plannedByDateAndRide\<close>.\<close>

definition indexAdd :: "date_index \<Rightarrow> planned_row \<Rightarrow> date_index" where
  "indexAdd idx pw =
     (let dateKey = pw_scheduled_date pw;
          byRide = (case idx dateKey of None \<Rightarrow> Map.empty | Some m \<Rightarrow> m);
          workouts = (case byRide (pw_peloton_ride_id pw) of None \<Rightarrow> [] | Some l \<Rightarrow> l)
      in idx(dateKey \<mapsto> byRide(pw_peloton_ride_id pw \<mapsto> workouts @ [toMatch pw])))"

definition buildIndex :: "planned_row list \<Rightarrow> date_index" where
  "buildIndex plannedWorkouts = foldl indexAdd Map.empty plannedWorkouts"

text \<open>\<^verbatim>\<open>workouts.sort((a, b) => a.sort_order - b.sort_order)\<close> on every bucket.
  \<^verbatim>\<open>Array.prototype.sort\<close> is stable, as is \<open>sort_key\<close>.\<close>

definition sortIndex :: "date_index \<Rightarrow> date_index" where
  "sortIndex idx =
     (\<lambda>d. map_option (\<lambda>byRide. (\<lambda>r. map_option (sort_key m_sort_order) (byRide r))) (idx d))"

definition plannedByDateAndRide :: "planned_row list \<Rightarrow> date_index" where
  "plannedByDateAndRide plannedWorkouts = sortIndex (buildIndex plannedWorkouts)"

subsection \<open>The matching loop\<close>

record sync_state =
  successfulUpdates :: "string list"
  matchedPelotonWorkoutIds :: "string set"
  attemptedIds :: "string list"
  failedUpdates :: nat
  trace :: "store_event list"

text \<open>The body of the \<^verbatim>\<open>for\<close> loop over the completed workouts. The result is the state
  when the iteration ends and the exception that ended it, if any.\<close>

definition matchOne ::
  "datelib \<Rightarrow> supabase_client \<Rightarrow> string option \<Rightarrow> date_index \<Rightarrow>
   PelotonWorkout \<Rightarrow> sync_state \<Rightarrow> sync_state \<times> thrown option" where
  "matchOne lib supabase timezone idx completedWorkout st =
     (case w_ride completedWorkout of
        None \<Rightarrow> (st, Some (ErrorObj ''Cannot read properties of undefined''))
      | Some rideId \<Rightarrow>
     (case timestampToDateInTimezone lib (w_created_at completedWorkout) timezone of
        Inl e \<Rightarrow> (st, Some e)
      | Inr completionDate \<Rightarrow>
     if w_id completedWorkout \<in> matchedPelotonWorkoutIds st then (st, None)
     else
     (case idx completionDate of
        None \<Rightarrow> (st, None)
      | Some byDate \<Rightarrow>
     (case byDate rideId of
        None \<Rightarrow> (st, None)
      | Some candidates \<Rightarrow>
     if candidates = [] then (st, None)
     else
     (case find (\<lambda>c. m_id c \<notin> set (attemptedIds st)) candidates of
        None \<Rightarrow> (st, None)
      | Some match \<Rightarrow>
     (let st1 = st\<lparr>attemptedIds := attemptedIds st @ [m_id match],
                   matchedPelotonWorkoutIds :=
                     insert (w_id completedWorkout) (matchedPelotonWorkoutIds st)\<rparr>
      in
      case toISOString (newDate (w_created_at completedWorkout * 1000)) of
        Inl e \<Rightarrow> (st1, Some e)
      | Inr completedAt \<Rightarrow>
     (let payload = \<lparr>u_status = ''completed'', u_completed_at = completedAt,
                     u_peloton_workout_id = w_id completedWorkout\<rparr>;
          updateError = update_planned supabase (trace st1) (m_id match) payload;
          st2 = st1\<lparr>trace := trace st1 @ [UpdateEv (m_id match) payload updateError]\<rparr>
      in
      case updateError of
        Some _ \<Rightarrow> (st2\<lparr>failedUpdates := failedUpdates st2 + 1\<rparr>, None)
      | None \<Rightarrow> (st2\<lparr>successfulUpdates := successfulUpdates st2 @ [m_id match]\<rparr>, None))))))))"

fun matchLoop ::
  "datelib \<Rightarrow> supabase_client \<Rightarrow> string option \<Rightarrow> date_index \<Rightarrow>
   PelotonWorkout list \<Rightarrow> sync_state \<Rightarrow> sync_state \<times> thrown option" where
  "matchLoop lib supabase timezone idx [] st = (st, None)"
| "matchLoop lib supabase timezone idx (w # ws) st =
     (case matchOne lib supabase timezone idx w st of
        (st', Some e) \<Rightarrow> (st', Some e)
      | (st', None) \<Rightarrow> matchLoop lib supabase timezone idx ws st')"

subsection \<open>The run\<close>

text \<open>Decimal rendering of a counter, as a template literal does it.\<close>

definition digit_char :: "nat \<Rightarrow> char" where
  "digit_char d = ''0123456789'' ! d"

fun string_of_nat :: "nat \<Rightarrow> string" where
  "string_of_nat n =
     (if n < 10 then [digit_char n]
      else string_of_nat (n div 10) @ [digit_char (n mod 10)])"

declare string_of_nat.simps [simp del]

text \<open>The filter on the fetched workouts: \<^verbatim>\<open>w.status === "COMPLETE" && w.ride?.id\<close>.
  An empty ride id is falsy.\<close>

definition isCompleteWithRide :: "PelotonWorkout \<Rightarrow> bool" where
  "isCompleteWithRide w =
     (w_status w = ''COMPLETE'' \<and> (case w_ride w of None \<Rightarrow> False | Some r \<Rightarrow> r \<noteq> []))"

text \<open>The top-level \<^verbatim>\<open>catch\<close>.\<close>

definition caughtResult :: "thrown \<Rightarrow> CompletionSyncResult" where
  "caughtResult e =
     \<lparr>success = False, matched = 0,
      error = Some (case e of ErrorObj m \<Rightarrow> m | NonError \<Rightarrow> ''Unknown error'')\<rparr>"

definition initState :: "store_event list \<Rightarrow> sync_state" where
  "initState tr = \<lparr>successfulUpdates = [], matchedPelotonWorkoutIds = {},
                   attemptedIds = [], failedUpdates = 0, trace = tr\<rparr>"

text \<open>What a run yields: the summary returned to the caller, the interactions with the
  store in the order they were made, and the exception the top-level \<^verbatim>\<open>catch\<close> received,
  if it received one.\<close>

record run =
  summary :: CompletionSyncResult
  calls :: "store_event list"
  caught :: "thrown option"

definition syncCompletedWorkouts ::
  "datelib \<Rightarrow> string \<Rightarrow> string \<Rightarrow> PelotonClient \<Rightarrow> supabase_client \<Rightarrow> string option \<Rightarrow> run"
  where
  "syncCompletedWorkouts lib userId pelotonUserId peloton supabase timezone =
     (case getUserWorkouts peloton pelotonUserId \<lparr>opt_limit = 20, opt_joins = ''ride''\<rparr> of
        Inl e \<Rightarrow> \<lparr>summary = caughtResult e, calls = [], caught = Some e\<rparr>
      | Inr response \<Rightarrow>
     (let completedWorkouts = filter isCompleteWithRide (r_data response) in
      if completedWorkouts = [] then
        \<lparr>summary = \<lparr>success = True, matched = 0, error = None\<rparr>, calls = [], caught = None\<rparr>
      else
     (let q = select_planned supabase userId;
          tr = [SelectEv userId q]
      in
      case q_error q of
        Some fetchError \<Rightarrow>
          \<lparr>summary = \<lparr>success = False, matched = 0,
                      error = Some (''Failed to fetch planned workouts: '' @ fetchError)\<rparr>,
           calls = tr, caught = None\<rparr>
      | None \<Rightarrow>
     (case q_data q of
        None \<Rightarrow>
          \<lparr>summary = \<lparr>success = True, matched = 0, error = None\<rparr>, calls = tr, caught = None\<rparr>
      | Some plannedWorkouts \<Rightarrow>
     if plannedWorkouts = [] then
       \<lparr>summary = \<lparr>success = True, matched = 0, error = None\<rparr>, calls = tr, caught = None\<rparr>
     else
     (case matchLoop lib supabase timezone (plannedByDateAndRide plannedWorkouts)
             completedWorkouts (initState tr) of
        (st, Some e) \<Rightarrow> \<lparr>summary = caughtResult e, calls = trace st, caught = Some e\<rparr>
      | (st, None) \<Rightarrow>
          \<lparr>summary =
             \<lparr>success = (failedUpdates st = 0),
              matched = length (successfulUpdates st),
              error = (if failedUpdates st > 0
                       then Some (string_of_nat (failedUpdates st)
                                  @ '' workout(s) failed to update in database'')
                       else None)\<rparr>,
           calls = trace st, caught = None\<rparr>)))))"

section \<open>Observing a run\<close>

text \<open>The writes of a trace, in order: the row written, the payload and the store's answer
  (\<open>None\<close>: the write succeeded).\<close>

fun writes :: "store_event list \<Rightarrow> (string \<times> update_payload \<times> string option) list" where
  "writes [] = []"
| "writes (SelectEv u q # es) = writes es"
| "writes (UpdateEv i p r # es) = (i, p, r) # writes es"

fun queries :: "store_event list \<Rightarrow> (string \<times> query_result) list" where
  "queries [] = []"
| "queries (SelectEv u q # es) = (u, q) # queries es"
| "queries (UpdateEv i p r # es) = queries es"

text \<open>The planned-workout ids that received a write attempt, and the Peloton workout ids
  those writes stored.\<close>

definition attemptedEntries :: "store_event list \<Rightarrow> string list" where
  "attemptedEntries tr = map fst (writes tr)"

definition consumedActivities :: "store_event list \<Rightarrow> string list" where
  "consumedActivities tr = map (\<lambda>(i, p, r). u_peloton_workout_id p) (writes tr)"

definition failedWrites :: "store_event list \<Rightarrow> nat" where
  "failedWrites tr = length (filter (\<lambda>(i, p, r). r \<noteq> None) (writes tr))"

definition successfulWrites :: "store_event list \<Rightarrow> nat" where
  "successfulWrites tr = length (filter (\<lambda>(i, p, r). r = None) (writes tr))"

text \<open>The writes without the store's answers.\<close>

definition attempts :: "store_event list \<Rightarrow> (string \<times> update_payload) list" where
  "attempts tr = map (\<lambda>(i, p, r). (i, p)) (writes tr)"

text \<open>The same store, except that every update succeeds.\<close>

definition allWritesSucceed :: "supabase_client \<Rightarrow> supabase_client" where
  "allWritesSucceed supabase = supabase\<lparr>update_planned := (\<lambda>history entryId payload. None)\<rparr>"

text \<open>The fetched workouts that pass the filter, and the rows the eligibility query returns
  (no rows where the fetch raised, respectively where the query carries no data).\<close>

definition eligibleActivities :: "PelotonClient \<Rightarrow> string \<Rightarrow> PelotonWorkout list" where
  "eligibleActivities peloton pelotonUserId =
     (case getUserWorkouts peloton pelotonUserId \<lparr>opt_limit = 20, opt_joins = ''ride''\<rparr> of
        Inl e \<Rightarrow> []
      | Inr response \<Rightarrow> filter isCompleteWithRide (r_data response))"

definition eligiblePlanned :: "supabase_client \<Rightarrow> string \<Rightarrow> planned_row list" where
  "eligiblePlanned supabase userId =
     (case q_data (select_planned supabase userId) of None \<Rightarrow> [] | Some rows \<Rightarrow> rows)"

text \<open>\<^verbatim>\<open>plannedByDateAndRide.get(date)?.get(ride)\<close>, with the empty list for a missing
  key at either level.\<close>

definition bucket :: "date_index \<Rightarrow> string \<Rightarrow> string \<Rightarrow> PlannedWorkoutMatch list" where
  "bucket idx d r =
     (case idx d of
        None \<Rightarrow> []
      | Some byRide \<Rightarrow> (case byRide r of None \<Rightarrow> [] | Some l \<Rightarrow> l))"

text \<open>The end of the loop body, from the two marks to the bookkeeping of the write.\<close>

definition issueWrite ::
  "supabase_client \<Rightarrow> PelotonWorkout \<Rightarrow> PlannedWorkoutMatch \<Rightarrow> sync_state
   \<Rightarrow> sync_state \<times> thrown option" where
  "issueWrite supabase completedWorkout match st =
     (let st1 = st\<lparr>attemptedIds := attemptedIds st @ [m_id match],
                   matchedPelotonWorkoutIds :=
                     insert (w_id completedWorkout) (matchedPelotonWorkoutIds st)\<rparr>
      in
      case toISOString (newDate (w_created_at completedWorkout * 1000)) of
        Inl e \<Rightarrow> (st1, Some e)
      | Inr completedAt \<Rightarrow>
     (let payload = \<lparr>u_status = ''completed'', u_completed_at = completedAt,
                     u_peloton_workout_id = w_id completedWorkout\<rparr>;
          updateError = update_planned supabase (trace st1) (m_id match) payload;
          st2 = st1\<lparr>trace := trace st1 @ [UpdateEv (m_id match) payload updateError]\<rparr>
      in
      case updateError of
        Some _ \<Rightarrow> (st2\<lparr>failedUpdates := failedUpdates st2 + 1\<rparr>, None)
      | None \<Rightarrow> (st2\<lparr>successfulUpdates := successfulUpdates st2 @ [m_id match]\<rparr>, None)))"

subsection \<open>Invariants of the loop\<close>

text \<open>The trackers of the loop agree with the trace: a written row is marked attempted, a
  stored workout id is marked matched, neither list repeats, and the two counters count the
  answers of the store.\<close>

definition sync_inv :: "sync_state \<Rightarrow> bool" where
  "sync_inv st \<longleftrightarrow>
     set (attemptedEntries (trace st)) \<subseteq> set (attemptedIds st) \<and>
     distinct (attemptedEntries (trace st)) \<and>
     set (consumedActivities (trace st)) \<subseteq> matchedPelotonWorkoutIds st \<and>
     distinct (consumedActivities (trace st)) \<and>
     failedUpdates st = failedWrites (trace st) \<and>
     length (successfulUpdates st) = successfulWrites (trace st)"

definition bound_inv :: "planned_row list \<Rightarrow> sync_state \<Rightarrow> bool" where
  "bound_inv rows st \<longleftrightarrow>
     distinct (attemptedIds st) \<and> set (attemptedIds st) \<subseteq> pw_id ` set rows \<and>
     length (writes (trace st)) \<le> length (attemptedIds st)"

text \<open>Two states that differ at most in what the store answered.\<close>

definition sameProgress :: "sync_state \<Rightarrow> sync_state \<Rightarrow> bool" where
  "sameProgress st st' \<longleftrightarrow>
     attemptedIds st = attemptedIds st' \<and>
     matchedPelotonWorkoutIds st = matchedPelotonWorkoutIds st' \<and>
     attempts (trace st) = attempts (trace st')"

subsection \<open>Test doubles\<close>

text \<open>A date library that knows the zone \<^verbatim>\<open>UTC\<close> only, runs in a process whose local zone
  is UTC, and renders two days of January 2024 (\<open>1705708800\<close> is 2024-01-20T00:00:00Z). Like
  date-fns, it raises a RangeError on Invalid Date.\<close>

definition formatTwoDays :: "jsdate \<Rightarrow> thrown + string" where
  "formatTwoDays d =
     (case d of
        None \<Rightarrow> Inl (ErrorObj ''Invalid time value'')
      | Some ms \<Rightarrow>
          Inr (if 1705708800000 \<le> ms \<and> ms < 1705795200000 then ''2024-01-20''
               else if 1705622400000 \<le> ms \<and> ms < 1705708800000 then ''2024-01-19''
               else ''another day''))"

definition testDates :: datelib where
  "testDates = \<lparr>tz_known = (\<lambda>tz. tz = ''UTC''), toZonedTime = (\<lambda>d tz. Inr d),
                 format_ymd = formatTwoDays\<rparr>"

text \<open>A store that holds the given eligible rows and rejects the updates of the rows
  listed in \<open>failing\<close>; a store whose eligibility query fails; a feed.\<close>

definition testStore :: "planned_row list \<Rightarrow> string list \<Rightarrow> supabase_client" where
  "testStore rows failing =
     \<lparr>select_planned = (\<lambda>u. \<lparr>q_data = Some rows, q_error = None\<rparr>),
      update_planned = (\<lambda>history entryId payload.
         if entryId \<in> set failing then Some ''store error'' else None)\<rparr>"

definition brokenStore :: supabase_client where
  "brokenStore =
     \<lparr>select_planned = (\<lambda>u. \<lparr>q_data = None, q_error = Some ''connection refused''\<rparr>),
      update_planned = (\<lambda>history entryId payload. None)\<rparr>"

definition testFeed :: "PelotonWorkout list \<Rightarrow> PelotonClient" where
  "testFeed ws = (\<lambda>u. Inr ws)"

definition completeWorkout :: "string \<Rightarrow> string \<Rightarrow> int \<Rightarrow> PelotonWorkout" where
  "completeWorkout i r t =
     \<lparr>w_id = i, w_status = ''COMPLETE'', w_ride = Some r, w_created_at = t\<rparr>"

definition plannedRow :: "string \<Rightarrow> string \<Rightarrow> string \<Rightarrow> int \<Rightarrow> planned_row" where
  "plannedRow i r d n = \<lparr>pw_id = i, pw_peloton_ride_id = r, pw_scheduled_date = d,
                          pw_sort_order = n, pw_peloton_workout_id = None\<rparr>"

definition payloadFor :: "string \<Rightarrow> int \<Rightarrow> update_payload" where
  "payloadFor w t =
     \<lparr>u_status = ''completed'', u_completed_at = t * 1000, u_peloton_workout_id = w\<rparr>"

text \<open>Two planned rows for ride \<open>r1\<close> on 2024-01-20, the first with the higher sort order,
  and one completion of that ride on that day.\<close>

definition scenarioC :: run where
  "scenarioC = syncCompletedWorkouts testDates ''u1'' ''pu1''
     (testFeed [completeWorkout ''w1'' ''r1'' 1705708800])
     (testStore [plannedRow ''pA'' ''r1'' ''2024-01-20'' 1,
                 plannedRow ''pB'' ''r1'' ''2024-01-20'' 0] [])
     (Some ''UTC'')"

text \<open>Two planned rows and two completions; the store rejects the write to \<open>pB\<close>.\<close>

definition scenarioF :: run where
  "scenarioF = syncCompletedWorkouts testDates ''u1'' ''pu1''
     (testFeed [completeWorkout ''w1'' ''r1'' 1705708800,
                completeWorkout ''w2'' ''r1'' 1705712400])
     (testStore [plannedRow ''pA'' ''r1'' ''2024-01-20'' 0,
                 plannedRow ''pB'' ''r1'' ''2024-01-20'' 1] [''pB''])
     (Some ''UTC'')"

text \<open>One planned row and two completions of its ride, of which the second carries a
  \<^verbatim>\<open>created_at\<close> beyond the range of a \<^verbatim>\<open>Date\<close>.\<close>

definition raisingRun :: run where
  "raisingRun = syncCompletedWorkouts testDates ''u1'' ''pu1''
     (testFeed [completeWorkout ''w1'' ''r1'' 1705708800,
                completeWorkout ''w2'' ''r1'' 10000000000000])
     (testStore [plannedRow ''pA'' ''r1'' ''2024-01-20'' 0] [])
     (Some ''UTC'')"

text \<open>One planned row, two completions of its ride on its day, and a store that rejects
  the write to the row.\<close>

definition retryRun :: run where
  "retryRun = syncCompletedWorkouts testDates ''u1'' ''pu1''
     (testFeed [completeWorkout ''w1'' ''r1'' 1705708800,
                completeWorkout ''w2'' ''r1'' 1705712400])
     (testStore [plannedRow ''pA'' ''r1'' ''2024-01-20'' 0] [''pA''])
     (Some ''UTC'')"

text \<open>Two planned rows, and a feed that lists the same completion twice.\<close>

definition duplicateRun :: run where
  "duplicateRun = syncCompletedWorkouts testDates ''u1'' ''pu1''
     (testFeed [completeWorkout ''w1'' ''r1'' 1705708800,
                completeWorkout ''w1'' ''r1'' 1705708800])
     (testStore [plannedRow ''pA'' ''r1'' ''2024-01-20'' 0,
                 plannedRow ''pB'' ''r1'' ''2024-01-20'' 1] [])
     (Some ''UTC'')"

text \<open>A completion, and a store whose eligibility query fails.\<close>

definition brokenRun :: run where
  "brokenRun = syncCompletedWorkouts testDates ''u1'' ''pu1''
     (testFeed [completeWorkout ''w1'' ''r1'' 1705708800]) brokenStore (Some ''UTC'')"

text \<open>A feed with a workout in progress and a completed workout without a ride.\<close>

definition idleFeed :: PelotonClient where
  "idleFeed = testFeed
     [\<lparr>w_id = ''w1'', w_status = ''IN_PROGRESS'', w_ride = Some ''r1'',
       w_created_at = 1705708800\<rparr>,
      \<lparr>w_id = ''w2'', w_status = ''COMPLETE'', w_ride = None, w_created_at = 1705708800\<rparr>]"

text \<open>The rows of scenario C, and the trackers of a run in which \<open>pB\<close> alone has been
  attempted.\<close>

definition scenarioC_rows :: "planned_row list" where
  "scenarioC_rows = [plannedRow ''pA'' ''r1'' ''2024-01-20'' 1,
                     plannedRow ''pB'' ''r1'' ''2024-01-20'' 0]"

definition pB_attempted :: sync_state where
  "pB_attempted = (initState [])\<lparr>attemptedIds := [''pB'']\<rparr>"

subsection \<open>The matching, described from the rows\<close>

text \<open>The candidates for a date and a ride: the eligible rows of that date and ride,
  ascending in \<^verbatim>\<open>sort_order\<close>, rows of equal \<^verbatim>\<open>sort_order\<close> in the order of the query's
  answer.\<close>

definition candidatesFor :: "planned_row list \<Rightarrow> string \<Rightarrow> string \<Rightarrow> planned_row list" where
  "candidatesFor rows d r =
     sort_key pw_sort_order
       (filter (\<lambda>pw. pw_scheduled_date pw = d \<and> pw_peloton_ride_id pw = r) rows)"

definition writePayload :: "PelotonWorkout \<Rightarrow> update_payload" where
  "writePayload w = \<lparr>u_status = ''completed'', u_completed_at = w_created_at w * 1000,
                     u_peloton_workout_id = w_id w\<rparr>"

text \<open>A reference description of the writes of a run, without index, trackers record or
  trace: the activities are taken in feed order; an activity already consumed is skipped;
  otherwise the activity takes the first candidate for its date and ride that no earlier
  activity took, and is skipped when there is none. The processing ends at an activity
  whose date cannot be resolved, or whose selected write cannot render its instant.\<close>

fun fifoAssign ::
  "datelib \<Rightarrow> string option \<Rightarrow> planned_row list \<Rightarrow> PelotonWorkout list \<Rightarrow>
   string list \<Rightarrow> string set \<Rightarrow> (string \<times> update_payload) list" where
  "fifoAssign lib timezone rows [] attempted consumed = []"
| "fifoAssign lib timezone rows (w # ws) attempted consumed =
     (case w_ride w of
        None \<Rightarrow> []
      | Some rideId \<Rightarrow>
     (case timestampToDateInTimezone lib (w_created_at w) timezone of
        Inl e \<Rightarrow> []
      | Inr date \<Rightarrow>
     if w_id w \<in> consumed then fifoAssign lib timezone rows ws attempted consumed
     else
     (case find (\<lambda>pw. pw_id pw \<notin> set attempted) (candidatesFor rows date rideId) of
        None \<Rightarrow> fifoAssign lib timezone rows ws attempted consumed
      | Some pw \<Rightarrow>
          if newDate (w_created_at w * 1000) = None then []
          else (pw_id pw, writePayload w)
               # fifoAssign lib timezone rows ws (attempted @ [pw_id pw])
                   (insert (w_id w) consumed))))"

text \<open>The rows the matching works on: those of the eligibility query when it answered
  without an error.\<close>

definition candidateRows :: "supabase_client \<Rightarrow> string \<Rightarrow> planned_row list" where
  "candidateRows supabase userId =
     (if q_error (select_planned supabase userId) = None
      then eligiblePlanned supabase userId else [])"

text \<open>A date library for a process in UTC that also knows \<^verbatim>\<open>America/Los_Angeles\<close>, eight
  hours behind UTC in January; and scenario D: a completion at 2024-01-20T06:00:00Z
  (\<open>1705730400\<close>) and a row planned for 2024-01-19.\<close>

definition pacificDates :: datelib where
  "pacificDates =
     \<lparr>tz_known = (\<lambda>tz. tz = ''UTC'' \<or> tz = ''America/Los_Angeles''),
      toZonedTime = (\<lambda>d tz. Inr (if tz = ''America/Los_Angeles''
                                   then map_option (\<lambda>ms. ms - 28800000) d else d)),
      format_ymd = formatTwoDays\<rparr>"

definition scenarioD :: run where
  "scenarioD = syncCompletedWorkouts pacificDates ''u1'' ''pu1''
     (testFeed [completeWorkout ''w1'' ''r1'' 1705730400])
     (testStore [plannedRow ''pA'' ''r1'' ''2024-01-19'' 0] [])
     (Some ''America/Los_Angeles'')"

section \<open>Lemmas\<close>

subsection \<open>Traces\<close>

lemma writes_append: "writes (xs @ ys) = writes xs @ writes ys"
  by (induction xs rule: writes.induct) auto

lemma queries_append: "queries (xs @ ys) = queries xs @ queries ys"
  by (induction xs rule: queries.induct) auto

lemma queries_mem: "SelectEv u q \<in> set tr \<longleftrightarrow> (u, q) \<in> set (queries tr)"
  by (induction tr rule: queries.induct) auto

lemma update_mem_attempted: "UpdateEv i p r \<in> set tr \<Longrightarrow> i \<in> set (attemptedEntries tr)"
  by (induction tr rule: writes.induct) (auto simp: attemptedEntries_def)

lemma successfulWrites_le: "successfulWrites tr \<le> length (writes tr)"
  by (simp add: successfulWrites_def)

lemma count_list_distinct: "distinct xs \<Longrightarrow> count_list xs x \<le> Suc 0"
  by (induction xs) (auto simp: count_list_0_iff)

lemma count_list_distinct_mem: "distinct xs \<Longrightarrow> x \<in> set xs \<Longrightarrow> count_list xs x = Suc 0"
  by (induction xs) (auto simp: count_list_0_iff)

lemma distinct_subset_length:
  assumes "distinct xs" "set xs \<subseteq> f ` set ys"
  shows "length xs \<le> length ys"
proof -
  have "length xs = card (set xs)" using assms(1) by (simp add: distinct_card)
  also have "\<dots> \<le> card (f ` set ys)" using assms(2) by (simp add: card_mono)
  also have "\<dots> \<le> card (set ys)" by (simp add: card_image_le)
  also have "\<dots> \<le> length ys" by (rule card_length)
  finally show ?thesis .
qed

subsection \<open>The calendar resolver\<close>

text \<open>Without a usable zone name the resolver is the library's local formatting of the
  instant, and with one it is the formatting of the converted date when both library calls
  return. The resolver raises only when that local formatting raises.\<close>

lemma resolver_fallback:
  assumes "timezone = None \<or> timezone = Some [] \<or> (\<exists>tz. timezone = Some tz \<and> \<not> tz_known lib tz)"
  shows "timestampToDateInTimezone lib timestamp timezone
           = format_ymd lib (newDate (timestamp * 1000))"
  using assms by (auto simp: timestampToDateInTimezone_def isValidTimezone_def Let_def)

lemma resolver_zoned:
  assumes "tz \<noteq> []" "tz_known lib tz"
    and "toZonedTime lib (newDate (timestamp * 1000)) tz = Inr zonedDate"
    and "format_ymd lib zonedDate = Inr s"
  shows "timestampToDateInTimezone lib timestamp (Some tz) = Inr s"
  using assms by (simp add: timestampToDateInTimezone_def isValidTimezone_def Let_def)

lemma resolver_raises:
  assumes "timestampToDateInTimezone lib timestamp timezone = Inl e"
  shows "format_ymd lib (newDate (timestamp * 1000)) = Inl e"
  using assms
  by (auto simp: timestampToDateInTimezone_def isValidTimezone_def Let_def
      split: option.splits if_splits sum.splits)

subsection \<open>The candidate index holds the sorted buckets\<close>

lemma bucket_indexAdd:
  "bucket (indexAdd idx pw) d r =
     bucket idx d r
     @ (if pw_scheduled_date pw = d \<and> pw_peloton_ride_id pw = r then [toMatch pw] else [])"
  by (auto simp: bucket_def indexAdd_def Let_def split: option.splits)

lemma bucket_foldl:
  "bucket (foldl indexAdd idx rows) d r =
     bucket idx d r
     @ map toMatch (filter (\<lambda>pw. pw_scheduled_date pw = d \<and> pw_peloton_ride_id pw = r) rows)"
  by (induction rows arbitrary: idx) (auto simp: bucket_indexAdd)

lemma bucket_sortIndex: "bucket (sortIndex idx) d r = sort_key m_sort_order (bucket idx d r)"
  by (auto simp: bucket_def sortIndex_def split: option.splits)

lemma bucket_planned:
  "bucket (plannedByDateAndRide rows) d r =
     sort_key m_sort_order
       (map toMatch (filter (\<lambda>pw. pw_scheduled_date pw = d \<and> pw_peloton_ride_id pw = r) rows))"
  by (simp add: plannedByDateAndRide_def bucket_sortIndex buildIndex_def bucket_foldl)
     (simp add: bucket_def)

lemma bucket_planned_ids:
  "c \<in> set (bucket (plannedByDateAndRide rows) d r) \<Longrightarrow> m_id c \<in> pw_id ` set rows"
  by (auto simp: bucket_planned toMatch_def)

lemma bucket_sorted:
  "sorted (map m_sort_order (bucket (plannedByDateAndRide rows) d r))"
  by (simp add: bucket_planned)

lemma bucket_stable:
  "filter (\<lambda>c. m_sort_order c = k) (bucket (plannedByDateAndRide rows) d r)
     = map toMatch (filter (\<lambda>pw. pw_scheduled_date pw = d \<and> pw_peloton_ride_id pw = r
                                 \<and> pw_sort_order pw = k) rows)"
proof -
  have "filter (\<lambda>c. m_sort_order c = k) (map toMatch xs)
          = map toMatch (filter (\<lambda>pw. pw_sort_order pw = k) xs)" for xs
    by (induction xs) (auto simp: toMatch_def)
  then show ?thesis
    by (simp add: bucket_planned sort_key_stable conj_ac cong: conj_cong)
qed

subsection \<open>One iteration\<close>

lemma matchOne_alt:
  "matchOne lib supabase timezone idx w st =
     (case w_ride w of
        None \<Rightarrow> (st, Some (ErrorObj ''Cannot read properties of undefined''))
      | Some rideId \<Rightarrow>
     (case timestampToDateInTimezone lib (w_created_at w) timezone of
        Inl e \<Rightarrow> (st, Some e)
      | Inr completionDate \<Rightarrow>
     if w_id w \<in> matchedPelotonWorkoutIds st then (st, None)
     else
     (case find (\<lambda>c. m_id c \<notin> set (attemptedIds st)) (bucket idx completionDate rideId) of
        None \<Rightarrow> (st, None)
      | Some match \<Rightarrow> issueWrite supabase w match st)))"
  by (auto simp: matchOne_def bucket_def issueWrite_def Let_def split: option.splits sum.splits)

lemma find_not_attempted:
  "find (\<lambda>c. m_id c \<notin> A) cs = Some m \<Longrightarrow> m_id m \<notin> A \<and> m \<in> set cs"
  by (auto simp: find_Some_iff)

lemma find_first_unattempted:
  assumes "\<forall>x\<in>set pre. m_id x \<in> A" "m_id c \<notin> A"
  shows "find (\<lambda>c. m_id c \<notin> A) (pre @ c # post) = Some c"
  using assms by (induction pre) auto

lemma find_all_attempted:
  assumes "\<forall>x\<in>set cs. m_id x \<in> A"
  shows "find (\<lambda>c. m_id c \<notin> A) cs = None"
  using assms by (induction cs) auto

lemma issueWrite_attempted:
  "attemptedIds (fst (issueWrite supabase w match st)) = attemptedIds st @ [m_id match]"
  by (auto simp: issueWrite_def Let_def split: sum.splits option.splits)

lemma issueWrite_entries:
  "attemptedEntries (trace (fst (issueWrite supabase w m st)))
     = attemptedEntries (trace st)
       @ (if newDate (w_created_at w * 1000) = None then [] else [m_id m])"
  by (auto simp: issueWrite_def Let_def toISOString_def attemptedEntries_def writes_append
      split: sum.splits option.splits)

lemma issueWrite_writes_le:
  "length (writes (trace (fst (issueWrite supabase w match st))))
     \<le> Suc (length (writes (trace st)))"
  by (auto simp: issueWrite_def Let_def writes_append split: sum.splits option.splits)

lemma issueWrite_inv:
  assumes "sync_inv st" "m_id match \<notin> set (attemptedIds st)"
    "w_id w \<notin> matchedPelotonWorkoutIds st"
  shows "sync_inv (fst (issueWrite supabase w match st))"
  using assms
  by (auto simp: issueWrite_def sync_inv_def Let_def attemptedEntries_def consumedActivities_def
      failedWrites_def successfulWrites_def writes_append split: sum.splits option.splits)

lemma matchOne_inv:
  assumes "sync_inv st"
  shows "sync_inv (fst (matchOne lib supabase timezone idx w st))"
  using assms
  by (auto simp: matchOne_alt issueWrite_inv dest: find_not_attempted
      split: option.splits sum.splits)

lemma matchOne_bound:
  assumes "bound_inv rows st"
  shows "bound_inv rows (fst (matchOne lib supabase timezone (plannedByDateAndRide rows) w st))"
proof -
  have "bound_inv rows (fst (issueWrite supabase w m st))"
    if "find (\<lambda>c. m_id c \<notin> set (attemptedIds st)) (bucket (plannedByDateAndRide rows) d r)
          = Some m"
    for d r m
  proof -
    from that have "m_id m \<notin> set (attemptedIds st)" "m_id m \<in> pw_id ` set rows"
      by (auto dest!: find_not_attempted bucket_planned_ids)
    with assms issueWrite_writes_le [of supabase w m st] show ?thesis
      by (auto simp: bound_inv_def issueWrite_attempted)
  qed
  with assms show ?thesis
    by (auto simp: matchOne_alt split: option.splits sum.splits)
qed

lemma matchOne_attempted_le:
  "length (attemptedIds (fst (matchOne lib supabase timezone idx w st)))
     \<le> Suc (length (attemptedIds st))"
  by (auto simp: matchOne_alt issueWrite_attempted split: option.splits sum.splits)

lemma matchOne_queries:
  "queries (trace (fst (matchOne lib supabase timezone idx w st))) = queries (trace st)"
  by (auto simp: matchOne_alt issueWrite_def Let_def queries_append
      split: option.splits sum.splits)

lemma issueWrite_sim:
  assumes "sameProgress st st'"
  shows "sameProgress (fst (issueWrite supabase w m st)) (fst (issueWrite supabase' w m st'))
         \<and> snd (issueWrite supabase w m st) = snd (issueWrite supabase' w m st')"
  using assms
  by (auto simp: issueWrite_def sameProgress_def attempts_def writes_append Let_def
      split: sum.splits option.splits)

lemma matchOne_sim:
  assumes "sameProgress st st'"
  shows "sameProgress (fst (matchOne lib supabase timezone idx w st))
                      (fst (matchOne lib supabase' timezone idx w st'))
         \<and> snd (matchOne lib supabase timezone idx w st)
           = snd (matchOne lib supabase' timezone idx w st')"
proof -
  have eq: "attemptedIds st = attemptedIds st'"
    "matchedPelotonWorkoutIds st = matchedPelotonWorkoutIds st'"
    using assms by (simp_all add: sameProgress_def)
  show ?thesis
    using assms issueWrite_sim [OF assms]
    by (auto simp: matchOne_alt eq split: option.splits sum.splits)
qed

lemma matchOne_all_attempted:
  assumes "w_ride w = Some rideId"
    and "timestampToDateInTimezone lib (w_created_at w) timezone = Inr date"
    and "\<forall>x\<in>set (bucket idx date rideId). m_id x \<in> set (attemptedIds st)"
  shows "matchOne lib supabase timezone idx w st = (st, None)"
proof -
  have "find (\<lambda>c. m_id c \<notin> set (attemptedIds st)) (bucket idx date rideId) = None"
    using assms(3) by (rule find_all_attempted)
  with assms(1,2) show ?thesis by (simp add: matchOne_alt)
qed

subsection \<open>The loop\<close>

lemma matchLoop_inv:
  "sync_inv st \<Longrightarrow> sync_inv (fst (matchLoop lib supabase timezone idx ws st))"
proof (induction ws arbitrary: st)
  case Nil
  then show ?case by simp
next
  case (Cons w ws)
  from Cons.prems have "sync_inv (fst (matchOne lib supabase timezone idx w st))"
    by (rule matchOne_inv)
  then show ?case
    using Cons.IH by (auto split: prod.splits option.splits)
qed

lemma matchLoop_bound:
  "bound_inv rows st \<Longrightarrow>
   bound_inv rows (fst (matchLoop lib supabase timezone (plannedByDateAndRide rows) ws st))"
proof (induction ws arbitrary: st)
  case Nil
  then show ?case by simp
next
  case (Cons w ws)
  from Cons.prems
  have "bound_inv rows (fst (matchOne lib supabase timezone (plannedByDateAndRide rows) w st))"
    by (rule matchOne_bound)
  then show ?case
    using Cons.IH by (auto split: prod.splits option.splits)
qed

lemma matchLoop_attempted_le:
  "length (attemptedIds (fst (matchLoop lib supabase timezone idx ws st)))
     \<le> length (attemptedIds st) + length ws"
proof (induction ws arbitrary: st)
  case Nil
  then show ?case by simp
next
  case (Cons w ws)
  obtain st' e where m: "matchOne lib supabase timezone idx w st = (st', e)"
    by (cases "matchOne lib supabase timezone idx w st")
  have le: "length (attemptedIds st') \<le> Suc (length (attemptedIds st))"
    using matchOne_attempted_le [of lib supabase timezone idx w st] m by simp
  show ?case
  proof (cases e)
    case None
    with m le Cons.IH [of st'] show ?thesis by simp
  next
    case (Some x)
    with m le show ?thesis by simp
  qed
qed

lemma matchLoop_queries:
  "queries (trace (fst (matchLoop lib supabase timezone idx ws st))) = queries (trace st)"
proof (induction ws arbitrary: st)
  case Nil
  then show ?case by simp
next
  case (Cons w ws)
  obtain st' e where m: "matchOne lib supabase timezone idx w st = (st', e)"
    by (cases "matchOne lib supabase timezone idx w st")
  then have "queries (trace st') = queries (trace st)"
    using matchOne_queries [of lib supabase timezone idx w st] by simp
  with m Cons.IH [of st'] show ?case by (cases e) simp_all
qed

lemma matchLoop_sim:
  "sameProgress st st' \<Longrightarrow>
   sameProgress (fst (matchLoop lib supabase timezone idx ws st))
                (fst (matchLoop lib supabase' timezone idx ws st'))
   \<and> snd (matchLoop lib supabase timezone idx ws st)
     = snd (matchLoop lib supabase' timezone idx ws st')"
proof (induction ws arbitrary: st st')
  case Nil
  then show ?case by simp
next
  case (Cons w ws)
  obtain a e where m: "matchOne lib supabase timezone idx w st = (a, e)"
    by (cases "matchOne lib supabase timezone idx w st")
  obtain a' e' where m': "matchOne lib supabase' timezone idx w st' = (a', e')"
    by (cases "matchOne lib supabase' timezone idx w st'")
  from matchOne_sim [OF Cons.prems, of lib supabase timezone idx w supabase'] m m'
  have s: "sameProgress a a'" and e: "e' = e" by simp_all
  show ?case
  proof (cases e)
    case None
    with m m' Cons.IH [OF s] show ?thesis by (simp add: e)
  next
    case (Some x)
    with m m' s show ?thesis by (simp add: e)
  qed
qed

lemma initState_inv: "sync_inv (initState [SelectEv u q])"
  by (simp add: sync_inv_def initState_def attemptedEntries_def consumedActivities_def
      failedWrites_def successfulWrites_def)

lemma initState_bound: "bound_inv rows (initState [SelectEv u q])"
  by (simp add: bound_inv_def initState_def)

lemma matchLoop_matched_le:
  assumes "matchLoop lib supabase timezone (plannedByDateAndRide rows) ws
             (initState [SelectEv u q]) = (st, e)"
  shows "length (successfulUpdates st) \<le> length ws
         \<and> length (successfulUpdates st) \<le> length rows"
proof -
  let ?st0 = "initState [SelectEv u q]"
  have "sync_inv (fst (matchLoop lib supabase timezone (plannedByDateAndRide rows) ws ?st0))"
    by (rule matchLoop_inv) (rule initState_inv)
  then have inv: "sync_inv st" using assms by simp
  have "bound_inv rows (fst (matchLoop lib supabase timezone (plannedByDateAndRide rows) ws ?st0))"
    by (rule matchLoop_bound) (rule initState_bound)
  then have b: "bound_inv rows st" using assms by simp
  have l: "length (attemptedIds st) \<le> length ws"
    using matchLoop_attempted_le [of lib supabase timezone "plannedByDateAndRide rows" ws ?st0]
      assms
    by (simp add: initState_def)
  have s: "length (successfulUpdates st) \<le> length (attemptedIds st)"
    using inv b successfulWrites_le [of "trace st"] by (simp add: sync_inv_def bound_inv_def)
  have r: "length (attemptedIds st) \<le> length rows"
    using b distinct_subset_length by (auto simp: bound_inv_def)
  from l s r show ?thesis by simp
qed

subsection \<open>The run\<close>

text \<open>What the trace of a run looks like.\<close>

lemma run_calls_cases:
  "calls (syncCompletedWorkouts lib userId pelotonUserId peloton supabase timezone) = [] \<or>
   calls (syncCompletedWorkouts lib userId pelotonUserId peloton supabase timezone)
     = [SelectEv userId (select_planned supabase userId)] \<or>
   (\<exists>st. calls (syncCompletedWorkouts lib userId pelotonUserId peloton supabase timezone)
           = trace st
      \<and> sync_inv st
      \<and> queries (trace st) = [(userId, select_planned supabase userId)]
      \<and> q_error (select_planned supabase userId) = None)"
proof -
  have "sync_inv (fst (matchLoop lib supabase timezone idx ws (initState [SelectEv u q])))"
    for idx ws u q
    by (rule matchLoop_inv) (rule initState_inv)
  moreover have
    "queries (trace (fst (matchLoop lib supabase timezone idx ws (initState [SelectEv u q]))))
      = [(u, q)]" for idx ws u q
    by (simp add: matchLoop_queries initState_def)
  ultimately show ?thesis
    unfolding syncCompletedWorkouts_def Let_def
    by (auto split: sum.splits option.splits prod.splits) (metis fst_conv)+
qed

lemma run_writes_distinct:
  "distinct (attemptedEntries
      (calls (syncCompletedWorkouts lib userId pelotonUserId peloton supabase timezone)))
   \<and> distinct (consumedActivities
      (calls (syncCompletedWorkouts lib userId pelotonUserId peloton supabase timezone)))"
  using run_calls_cases [of lib userId pelotonUserId peloton supabase timezone]
  by (auto simp: attemptedEntries_def consumedActivities_def sync_inv_def)

lemma matched_le_both:
  "matched (summary (syncCompletedWorkouts lib userId pelotonUserId peloton supabase timezone))
     \<le> length (eligibleActivities peloton pelotonUserId) \<and>
   matched (summary (syncCompletedWorkouts lib userId pelotonUserId peloton supabase timezone))
     \<le> length (eligiblePlanned supabase userId)"
  by (auto simp: syncCompletedWorkouts_def eligibleActivities_def eligiblePlanned_def Let_def
      caughtResult_def dest: matchLoop_matched_le split: sum.splits option.splits prod.splits)

lemma eligibleActivities_le: "length (eligibleActivities peloton pelotonUserId) \<le> 20"
proof -
  have "length (filter P (take 20 ws)) \<le> 20" for P and ws :: "PelotonWorkout list"
    using length_filter_le [of P "take 20 ws"] by simp
  then show ?thesis
    by (auto simp: eligibleActivities_def getUserWorkouts_def split: sum.splits)
qed

lemma run_attempts_independent:
  assumes "select_planned supabase userId = select_planned supabase' userId"
  shows "attempts (calls (syncCompletedWorkouts lib userId pelotonUserId peloton supabase timezone))
           = attempts (calls (syncCompletedWorkouts lib userId pelotonUserId peloton supabase' timezone))
         \<and> caught (syncCompletedWorkouts lib userId pelotonUserId peloton supabase timezone)
           = caught (syncCompletedWorkouts lib userId pelotonUserId peloton supabase' timezone)"
proof -
  have sim: "attempts (trace (fst (matchLoop lib supabase timezone idx ws (initState tr))))
               = attempts (trace (fst (matchLoop lib supabase' timezone idx ws (initState tr))))
             \<and> snd (matchLoop lib supabase timezone idx ws (initState tr))
               = snd (matchLoop lib supabase' timezone idx ws (initState tr))" for idx ws tr
    using matchLoop_sim [of "initState tr" "initState tr" lib supabase timezone idx ws supabase']
    by (simp add: sameProgress_def)
  show ?thesis
  proof (cases "getUserWorkouts peloton pelotonUserId \<lparr>opt_limit = 20, opt_joins = ''ride''\<rparr>")
    case (Inl x)
    then show ?thesis by (simp add: syncCompletedWorkouts_def)
  next
    case (Inr response)
    show ?thesis
    proof (cases "q_data (select_planned supabase' userId)")
      case None
      with Inr assms show ?thesis
        by (simp add: syncCompletedWorkouts_def Let_def attempts_def split: option.splits)
    next
      case (Some rows)
      let ?idx = "plannedByDateAndRide rows"
      let ?ws = "filter isCompleteWithRide (r_data response)"
      let ?tr = "[SelectEv userId (select_planned supabase' userId)]"
      obtain a e where m: "matchLoop lib supabase timezone ?idx ?ws (initState ?tr) = (a, e)"
        by (cases "matchLoop lib supabase timezone ?idx ?ws (initState ?tr)")
      obtain a' e' where m': "matchLoop lib supabase' timezone ?idx ?ws (initState ?tr) = (a', e')"
        by (cases "matchLoop lib supabase' timezone ?idx ?ws (initState ?tr)")
      from sim [of ?idx ?ws ?tr] m m'
      have "attempts (trace a) = attempts (trace a')" and e: "e' = e" by simp_all
      with Inr assms Some m m' show ?thesis
        by (cases e)
          (simp_all add: syncCompletedWorkouts_def Let_def attempts_def split: option.splits)
    qed
  qed
qed

lemma run_summary_normal:
  assumes "caught (syncCompletedWorkouts lib userId pelotonUserId peloton supabase timezone) = None"
    and "q_error (select_planned supabase userId) = None"
  shows "(success (summary (syncCompletedWorkouts lib userId pelotonUserId peloton supabase timezone))
            \<longleftrightarrow> failedWrites (calls (syncCompletedWorkouts lib userId pelotonUserId peloton supabase timezone)) = 0)
       \<and> matched (summary (syncCompletedWorkouts lib userId pelotonUserId peloton supabase timezone))
           = successfulWrites (calls (syncCompletedWorkouts lib userId pelotonUserId peloton supabase timezone))
       \<and> error (summary (syncCompletedWorkouts lib userId pelotonUserId peloton supabase timezone))
           = (if failedWrites (calls (syncCompletedWorkouts lib userId pelotonUserId peloton supabase timezone)) > 0
              then Some (string_of_nat (failedWrites (calls (syncCompletedWorkouts lib userId pelotonUserId peloton supabase timezone)))
                         @ '' workout(s) failed to update in database'')
              else None)"
proof -
  have inv: "sync_inv (fst (matchLoop lib supabase timezone idx ws (initState [SelectEv u q])))"
    for idx ws u q
    by (rule matchLoop_inv) (rule initState_inv)
  show ?thesis
  proof (cases "getUserWorkouts peloton pelotonUserId \<lparr>opt_limit = 20, opt_joins = ''ride''\<rparr>")
    case (Inl x)
    with assms show ?thesis by (simp add: syncCompletedWorkouts_def)
  next
    case (Inr response)
    show ?thesis
    proof (cases "q_data (select_planned supabase userId)")
      case None
      with Inr assms show ?thesis
        by (simp add: syncCompletedWorkouts_def Let_def failedWrites_def successfulWrites_def)
    next
      case (Some rows)
      let ?idx = "plannedByDateAndRide rows"
      let ?ws = "filter isCompleteWithRide (r_data response)"
      let ?tr = "[SelectEv userId (select_planned supabase userId)]"
      obtain a e where m: "matchLoop lib supabase timezone ?idx ?ws (initState ?tr) = (a, e)"
        by (cases "matchLoop lib supabase timezone ?idx ?ws (initState ?tr)")
      from inv [of ?idx ?ws userId "select_planned supabase userId"] m
      have "sync_inv a" by simp
      then have "failedUpdates a = failedWrites (trace a)"
        "length (successfulUpdates a) = successfulWrites (trace a)"
        by (simp_all add: sync_inv_def)
      with Inr assms Some m show ?thesis
        by (cases e; cases "?ws = []"; cases "rows = []")
          (simp_all add: syncCompletedWorkouts_def Let_def failedWrites_def
            successfulWrites_def)
    qed
  qed
qed

subsection \<open>The run follows the reference description\<close>

lemma insort_key_toMatch:
  "insort_key m_sort_order (toMatch x) (map toMatch ys)
     = map toMatch (insort_key pw_sort_order x ys)"
  by (induction ys) (auto simp: toMatch_def)

lemma sort_key_toMatch:
  "sort_key m_sort_order (map toMatch xs) = map toMatch (sort_key pw_sort_order xs)"
  by (induction xs) (auto simp: insort_key_toMatch)

lemma bucket_candidatesFor:
  "bucket (plannedByDateAndRide rows) d r = map toMatch (candidatesFor rows d r)"
  by (simp add: bucket_planned candidatesFor_def sort_key_toMatch)

lemma find_toMatch:
  "find (\<lambda>c. m_id c \<notin> A) (map toMatch xs) = map_option toMatch (find (\<lambda>pw. pw_id pw \<notin> A) xs)"
  by (induction xs) (auto simp: toMatch_def)

lemma attempts_append: "attempts (xs @ ys) = attempts xs @ attempts ys"
  by (simp add: attempts_def writes_append)

lemma attemptedEntries_attempts: "attemptedEntries tr = map fst (attempts tr)"
  by (induction tr rule: writes.induct) (auto simp: attemptedEntries_def attempts_def)

lemma issueWrite_invalid:
  assumes "newDate (w_created_at w * 1000) = None"
  shows "snd (issueWrite supabase w m st) \<noteq> None"
    and "trace (fst (issueWrite supabase w m st)) = trace st"
  using assms by (simp_all add: issueWrite_def toISOString_def Let_def)

lemma issueWrite_valid:
  assumes "newDate (w_created_at w * 1000) \<noteq> None"
  shows "snd (issueWrite supabase w m st) = None"
    and "attempts (trace (fst (issueWrite supabase w m st)))
           = attempts (trace st) @ [(m_id m, writePayload w)]"
    and "matchedPelotonWorkoutIds (fst (issueWrite supabase w m st))
           = insert (w_id w) (matchedPelotonWorkoutIds st)"
  using assms
  by (auto simp: issueWrite_def toISOString_def newDate_def Let_def attempts_def writes_append
      writePayload_def split: option.splits if_splits)

lemma matchLoop_fifo:
  "attempts (trace (fst (matchLoop lib supabase timezone (plannedByDateAndRide rows) ws st)))
     = attempts (trace st)
       @ fifoAssign lib timezone rows ws (attemptedIds st) (matchedPelotonWorkoutIds st)"
proof (induction ws arbitrary: st)
  case Nil
  then show ?case by simp
next
  case (Cons w ws)
  let ?idx = "plannedByDateAndRide rows"
  show ?case
  proof (cases "w_ride w")
    case None
    then show ?thesis by (simp add: matchOne_alt)
  next
    case (Some rideId)
    note ride = Some
    show ?thesis
    proof (cases "timestampToDateInTimezone lib (w_created_at w) timezone")
      case (Inl e)
      with ride show ?thesis by (simp add: matchOne_alt)
    next
      case (Inr date)
      note date = Inr
      show ?thesis
      proof (cases "w_id w \<in> matchedPelotonWorkoutIds st")
        case True
        with ride date Cons.IH [of st] show ?thesis by (simp add: matchOne_alt)
      next
        case False
        note fresh = False
        show ?thesis
        proof (cases "find (\<lambda>pw. pw_id pw \<notin> set (attemptedIds st)) (candidatesFor rows date rideId)")
          case None
          then have "find (\<lambda>c. m_id c \<notin> set (attemptedIds st)) (bucket ?idx date rideId) = None"
            by (simp add: bucket_candidatesFor find_toMatch)
          with ride date fresh None Cons.IH [of st] show ?thesis
            by (simp add: matchOne_alt)
        next
          case (Some pw)
          then have f: "find (\<lambda>c. m_id c \<notin> set (attemptedIds st)) (bucket ?idx date rideId)
                          = Some (toMatch pw)"
            by (simp add: bucket_candidatesFor find_toMatch)
          have m: "matchOne lib supabase timezone ?idx w st = issueWrite supabase w (toMatch pw) st"
            using ride date fresh f by (simp add: matchOne_alt)
          have i: "m_id (toMatch pw) = pw_id pw" by (simp add: toMatch_def)
          obtain st' e where iw: "issueWrite supabase w (toMatch pw) st = (st', e)"
            by (cases "issueWrite supabase w (toMatch pw) st")
          show ?thesis
          proof (cases "newDate (w_created_at w * 1000) = None")
            case True
            from issueWrite_invalid [OF True, of supabase "toMatch pw" st] iw
            obtain x where "e = Some x" "trace st' = trace st" by auto
            with ride date fresh Some True m iw show ?thesis by simp
          next
            case False
            from issueWrite_valid [OF False, of supabase "toMatch pw" st] iw
              issueWrite_attempted [of supabase w "toMatch pw" st]
            have "e = None"
              "attempts (trace st') = attempts (trace st) @ [(pw_id pw, writePayload w)]"
              "matchedPelotonWorkoutIds st' = insert (w_id w) (matchedPelotonWorkoutIds st)"
              "attemptedIds st' = attemptedIds st @ [pw_id pw]"
              by (simp_all add: i)
            with ride date fresh Some False m iw Cons.IH [of st'] show ?thesis by simp
          qed
        qed
      qed
    qed
  qed
qed

lemma fifoAssign_no_rows: "fifoAssign lib timezone [] ws attempted consumed = []"
  by (induction ws) (auto simp: candidatesFor_def split: option.splits sum.splits)

lemma run_fifo:
  "attempts (calls (syncCompletedWorkouts lib userId pelotonUserId peloton supabase timezone))
     = fifoAssign lib timezone (candidateRows supabase userId)
         (eligibleActivities peloton pelotonUserId) [] {}"
proof (cases "getUserWorkouts peloton pelotonUserId \<lparr>opt_limit = 20, opt_joins = ''ride''\<rparr>")
  case (Inl e)
  then show ?thesis
    by (simp add: syncCompletedWorkouts_def eligibleActivities_def attempts_def)
next
  case (Inr response)
  let ?ws = "filter isCompleteWithRide (r_data response)"
  let ?q = "select_planned supabase userId"
  have ea: "eligibleActivities peloton pelotonUserId = ?ws"
    using Inr by (simp add: eligibleActivities_def)
  show ?thesis
  proof (cases "?ws = []")
    case True
    with Inr ea show ?thesis by (simp add: syncCompletedWorkouts_def attempts_def)
  next
    case False
    note ws = False
    show ?thesis
    proof (cases "q_error ?q")
      case (Some msg)
      with Inr ws show ?thesis
        by (simp add: syncCompletedWorkouts_def Let_def attempts_def candidateRows_def
            fifoAssign_no_rows)
    next
      case None
      note noerr = None
      show ?thesis
      proof (cases "q_data ?q")
        case None
        with Inr ws noerr show ?thesis
          by (simp add: syncCompletedWorkouts_def Let_def attempts_def candidateRows_def
              eligiblePlanned_def fifoAssign_no_rows)
      next
        case (Some rows)
        show ?thesis
        proof (cases "rows = []")
          case True
          with Inr ws noerr Some show ?thesis
            by (simp add: syncCompletedWorkouts_def Let_def attempts_def candidateRows_def
                eligiblePlanned_def fifoAssign_no_rows)
        next
          case False
          obtain st e where m: "matchLoop lib supabase timezone (plannedByDateAndRide rows) ?ws
              (initState [SelectEv userId ?q]) = (st, e)"
            by (cases "matchLoop lib supabase timezone (plannedByDateAndRide rows) ?ws
              (initState [SelectEv userId ?q])")
          have "attempts (trace st) = fifoAssign lib timezone rows ?ws [] {}"
            using matchLoop_fifo [of lib supabase timezone rows ?ws "initState [SelectEv userId ?q]"] m
            by (simp add: initState_def attempts_def)
          moreover have "calls (syncCompletedWorkouts lib userId pelotonUserId peloton supabase timezone)
                 = trace st"
            using Inr ws noerr Some False m
            by (cases e) (simp_all add: syncCompletedWorkouts_def Let_def)
          ultimately show ?thesis
            using ea noerr Some by (simp add: candidateRows_def eligiblePlanned_def)
        qed
      qed
    qed
  qed
qed

subsection \<open>When the loop does not raise\<close>

lemma resolver_returns:
  assumes "format_ymd lib (newDate (timestamp * 1000)) = Inr local"
  shows "\<exists>s. timestampToDateInTimezone lib timestamp timezone = Inr s"
  using assms
  by (auto simp: timestampToDateInTimezone_def Let_def split: option.splits sum.splits)

lemma resolver_output:
  assumes "timestampToDateInTimezone lib timestamp timezone = Inr out"
  shows "\<exists>d. format_ymd lib d = Inr out"
  using assms
  by (auto simp: timestampToDateInTimezone_def Let_def split: option.splits sum.splits if_splits)

lemma matchOne_no_raise:
  assumes "w_ride w \<noteq> None"
    and "format_ymd lib (newDate (w_created_at w * 1000)) = Inr local"
    and "newDate (w_created_at w * 1000) \<noteq> None"
  shows "snd (matchOne lib supabase timezone idx w st) = None"
proof -
  from assms(1) obtain rideId where r: "w_ride w = Some rideId" by auto
  from resolver_returns [OF assms(2), of timezone]
  obtain s where s: "timestampToDateInTimezone lib (w_created_at w) timezone = Inr s" by auto
  show ?thesis
    using r s issueWrite_valid(1) [OF assms(3)]
    by (simp add: matchOne_alt split: option.splits)
qed

lemma matchLoop_no_raise:
  assumes "\<forall>w\<in>set ws. w_ride w \<noteq> None
             \<and> (\<exists>local. format_ymd lib (newDate (w_created_at w * 1000)) = Inr local)
             \<and> newDate (w_created_at w * 1000) \<noteq> None"
  shows "snd (matchLoop lib supabase timezone idx ws st) = None"
  using assms
proof (induction ws arbitrary: st)
  case Nil
  then show ?case by simp
next
  case (Cons w ws)
  obtain st' e where m: "matchOne lib supabase timezone idx w st = (st', e)"
    by (cases "matchOne lib supabase timezone idx w st")
  from Cons.prems obtain local where
    "w_ride w \<noteq> None" "format_ymd lib (newDate (w_created_at w * 1000)) = Inr local"
    "newDate (w_created_at w * 1000) \<noteq> None"
    by auto
  from matchOne_no_raise [OF this, of supabase timezone idx st] m have "e = None" by simp
  with m Cons.IH [of st'] Cons.prems show ?case by simp
qed

lemma run_no_raise:
  assumes "getUserWorkouts peloton pelotonUserId \<lparr>opt_limit = 20, opt_joins = ''ride''\<rparr>
             = Inr response"
    and "\<forall>w\<in>set (filter isCompleteWithRide (r_data response)).
           (\<exists>local. format_ymd lib (newDate (w_created_at w * 1000)) = Inr local)
           \<and> newDate (w_created_at w * 1000) \<noteq> None"
  shows "caught (syncCompletedWorkouts lib userId pelotonUserId peloton supabase timezone) = None"
proof -
  let ?ws = "filter isCompleteWithRide (r_data response)"
  have "\<forall>w\<in>set ?ws. w_ride w \<noteq> None
             \<and> (\<exists>local. format_ymd lib (newDate (w_created_at w * 1000)) = Inr local)
             \<and> newDate (w_created_at w * 1000) \<noteq> None"
    using assms(2) by (auto simp: isCompleteWithRide_def split: option.splits)
  then have "snd (matchLoop lib supabase timezone idx ?ws st) = None" for idx st
    by (rule matchLoop_no_raise)
  then have "\<And>idx st a e. matchLoop lib supabase timezone idx ?ws st = (a, e) \<Longrightarrow> e = None"
    by (metis snd_conv)
  with assms(1) show ?thesis
    by (auto simp: syncCompletedWorkouts_def Let_def split: option.splits prod.splits)
qed

subsection \<open>The test runs, evaluated\<close>

lemmas run_defs =
  syncCompletedWorkouts_def getUserWorkouts_def isCompleteWithRide_def plannedByDateAndRide_def
  sortIndex_def buildIndex_def indexAdd_def toMatch_def matchOne_def
  timestampToDateInTimezone_def isValidTimezone_def newDate_def toISOString_def initState_def
  caughtResult_def Let_def
  formatTwoDays_def testDates_def testStore_def brokenStore_def testFeed_def
  completeWorkout_def plannedRow_def payloadFor_def

lemma scenarioC_run:
  "scenarioC =
     \<lparr>summary = \<lparr>success = True, matched = 1, error = None\<rparr>,
      calls = [SelectEv ''u1''
                 \<lparr>q_data = Some [plannedRow ''pA'' ''r1'' ''2024-01-20'' 1,
                                 plannedRow ''pB'' ''r1'' ''2024-01-20'' 0],
                  q_error = None\<rparr>,
               UpdateEv ''pB'' (payloadFor ''w1'' 1705708800) None],
      caught = None\<rparr>"
  by (simp add: scenarioC_def run_defs)

lemma scenarioF_run:
  "scenarioF =
     \<lparr>summary = \<lparr>success = False, matched = 1,
                 error = Some ''1 workout(s) failed to update in database''\<rparr>,
      calls = [SelectEv ''u1''
                 \<lparr>q_data = Some [plannedRow ''pA'' ''r1'' ''2024-01-20'' 0,
                                 plannedRow ''pB'' ''r1'' ''2024-01-20'' 1],
                  q_error = None\<rparr>,
               UpdateEv ''pA'' (payloadFor ''w1'' 1705708800) None,
               UpdateEv ''pB'' (payloadFor ''w2'' 1705712400) (Some ''store error'')],
      caught = None\<rparr>"
  by (simp add: scenarioF_def run_defs string_of_nat.simps digit_char_def)

lemma raisingRun_run:
  "raisingRun =
     \<lparr>summary = \<lparr>success = False, matched = 0, error = Some ''Invalid time value''\<rparr>,
      calls = [SelectEv ''u1''
                 \<lparr>q_data = Some [plannedRow ''pA'' ''r1'' ''2024-01-20'' 0], q_error = None\<rparr>,
               UpdateEv ''pA'' (payloadFor ''w1'' 1705708800) None],
      caught = Some (ErrorObj ''Invalid time value'')\<rparr>"
  by (simp add: raisingRun_def run_defs)

lemma retryRun_run:
  "retryRun =
     \<lparr>summary = \<lparr>success = False, matched = 0,
                 error = Some ''1 workout(s) failed to update in database''\<rparr>,
      calls = [SelectEv ''u1''
                 \<lparr>q_data = Some [plannedRow ''pA'' ''r1'' ''2024-01-20'' 0], q_error = None\<rparr>,
               UpdateEv ''pA'' (payloadFor ''w1'' 1705708800) (Some ''store error'')],
      caught = None\<rparr>"
  by (simp add: retryRun_def run_defs string_of_nat.simps digit_char_def)

lemma duplicateRun_run:
  "duplicateRun =
     \<lparr>summary = \<lparr>success = True, matched = 1, error = None\<rparr>,
      calls = [SelectEv ''u1''
                 \<lparr>q_data = Some [plannedRow ''pA'' ''r1'' ''2024-01-20'' 0,
                                 plannedRow ''pB'' ''r1'' ''2024-01-20'' 1],
                  q_error = None\<rparr>,
               UpdateEv ''pA'' (payloadFor ''w1'' 1705708800) None],
      caught = None\<rparr>"
  by (simp add: duplicateRun_def run_defs)

lemma brokenRun_run:
  "brokenRun =
     \<lparr>summary = \<lparr>success = False, matched = 0,
                 error = Some ''Failed to fetch planned workouts: connection refused''\<rparr>,
      calls = [SelectEv ''u1'' \<lparr>q_data = None, q_error = Some ''connection refused''\<rparr>],
      caught = None\<rparr>"
  by (simp add: brokenRun_def run_defs)

lemma trace_obs_simps:
  "attemptedEntries [] = []"
  "attemptedEntries (SelectEv u q # es) = attemptedEntries es"
  "attemptedEntries (UpdateEv i p r # es) = i # attemptedEntries es"
  "consumedActivities [] = []"
  "consumedActivities (SelectEv u q # es) = consumedActivities es"
  "consumedActivities (UpdateEv i p r # es) = u_peloton_workout_id p # consumedActivities es"
  "failedWrites [] = 0"
  "failedWrites (SelectEv u q # es) = failedWrites es"
  "failedWrites (UpdateEv i p r # es) = (if r = None then 0 else 1) + failedWrites es"
  "successfulWrites [] = 0"
  "successfulWrites (SelectEv u q # es) = successfulWrites es"
  "successfulWrites (UpdateEv i p r # es) = (if r = None then 1 else 0) + successfulWrites es"
  by (simp_all add: attemptedEntries_def consumedActivities_def failedWrites_def
      successfulWrites_def)

lemma scenarioD_run:
  "scenarioD =
     \<lparr>summary = \<lparr>success = True, matched = 1, error = None\<rparr>,
      calls = [SelectEv ''u1''
                 \<lparr>q_data = Some [plannedRow ''pA'' ''r1'' ''2024-01-19'' 0], q_error = None\<rparr>,
               UpdateEv ''pA'' (payloadFor ''w1'' 1705730400) None],
      caught = None\<rparr>"
  by (simp add: scenarioD_def pacificDates_def run_defs)

section \<open>The claims\<close>

text \<open>
  Claim C1. In every run, each planned-workout id receives at most one update, whatever
  the store answers: the id is pushed on \<^verbatim>\<open>attemptedIds\<close> before the update is issued,
  so a rejected update is not followed by a second update of the same row.
\<close>

theorem entry_written_at_most_once:
  "let run = syncCompletedWorkouts lib userId pelotonUserId peloton supabase timezone in
   count_list (attemptedEntries (calls run)) entryId \<le> 1
   \<and> (UpdateEv entryId payload (Some err) \<in> set (calls run)
        \<longrightarrow> count_list (attemptedEntries (calls run)) entryId = 1)"
proof -
  let ?run = "syncCompletedWorkouts lib userId pelotonUserId peloton supabase timezone"
  have d: "distinct (attemptedEntries (calls ?run))"
    using run_writes_distinct [of lib userId pelotonUserId peloton supabase timezone] by simp
  then have "count_list (attemptedEntries (calls ?run)) entryId \<le> 1"
    using count_list_distinct [of "attemptedEntries (calls ?run)" entryId] by simp
  moreover have "count_list (attemptedEntries (calls ?run)) entryId = 1"
    if "UpdateEv entryId payload (Some err) \<in> set (calls ?run)"
    using that d update_mem_attempted [of entryId payload "Some err" "calls ?run"]
      count_list_distinct_mem [of "attemptedEntries (calls ?run)" entryId] by simp
  ultimately show ?thesis by (simp add: Let_def)
qed

theorem entry_written_at_most_once_witness:
  "UpdateEv ''pA'' (payloadFor ''w1'' 1705708800) (Some ''store error'') \<in> set (calls retryRun)
   \<and> count_list (attemptedEntries (calls retryRun)) ''pA'' = 1"
  using entry_written_at_most_once
    [of testDates "''u1''" "''pu1''"
        "testFeed [completeWorkout ''w1'' ''r1'' 1705708800,
                   completeWorkout ''w2'' ''r1'' 1705712400]"
        "testStore [plannedRow ''pA'' ''r1'' ''2024-01-20'' 0] [''pA'']" "Some ''UTC''"
        "''pA''" "payloadFor ''w1'' 1705708800" "''store error''", folded retryRun_def]
  by (simp add: Let_def retryRun_run)

text \<open>
  Claim C2. In every run, each Peloton workout id is stored by at most one update, also
  when the feed lists the same workout id several times.
\<close>

theorem activity_consumed_at_most_once:
  "count_list
     (consumedActivities
        (calls (syncCompletedWorkouts lib userId pelotonUserId peloton supabase timezone)))
     activityId \<le> 1"
  using run_writes_distinct [of lib userId pelotonUserId peloton supabase timezone]
    count_list_distinct
      [of "consumedActivities
             (calls (syncCompletedWorkouts lib userId pelotonUserId peloton supabase timezone))"
          activityId]
  by simp

theorem activity_consumed_at_most_once_witness:
  "count_list (consumedActivities (calls duplicateRun)) ''w1'' \<le> 1
   \<and> consumedActivities (calls duplicateRun) = [''w1'']"
  using activity_consumed_at_most_once
    [of testDates "''u1''" "''pu1''"
        "testFeed [completeWorkout ''w1'' ''r1'' 1705708800,
                   completeWorkout ''w1'' ''r1'' 1705708800]"
        "testStore [plannedRow ''pA'' ''r1'' ''2024-01-20'' 0,
                    plannedRow ''pB'' ''r1'' ''2024-01-20'' 1] []" "Some ''UTC''"
        "''w1''", folded duplicateRun_def]
  by (simp add: duplicateRun_run trace_obs_simps payloadFor_def)

text \<open>
  Claim C3, as stated: whenever the fetch, the filter and the eligibility query succeed,
  \<open>success\<close> holds exactly when no write failed and \<open>matched\<close> is the number of successful
  writes. It fails in a run that the top-level \<^verbatim>\<open>catch\<close> ends after a write: in
  \<open>raisingRun\<close> the first completion is written to row \<open>pA\<close>, the date of the second one
  cannot be formatted, and the summary is \<^verbatim>\<open>{success: false, matched: 0}\<close> although one
  write succeeded and none failed.
\<close>

theorem summary_counts_writes_counterexample:
  "getUserWorkouts
     (testFeed [completeWorkout ''w1'' ''r1'' 1705708800,
                completeWorkout ''w2'' ''r1'' 10000000000000])
     ''pu1'' \<lparr>opt_limit = 20, opt_joins = ''ride''\<rparr>
     = Inr \<lparr>r_data = [completeWorkout ''w1'' ''r1'' 1705708800,
                      completeWorkout ''w2'' ''r1'' 10000000000000]\<rparr>
   \<and> q_error (select_planned (testStore [plannedRow ''pA'' ''r1'' ''2024-01-20'' 0] []) ''u1'')
       = None
   \<and> failedWrites (calls raisingRun) = 0
   \<and> \<not> success (summary raisingRun)
   \<and> successfulWrites (calls raisingRun) = 1
   \<and> matched (summary raisingRun) = 0"
  by (simp add: raisingRun_run trace_obs_simps getUserWorkouts_def testFeed_def testStore_def)

text \<open>
  Claim C3, amended: a failed write does not end the run or change what is processed
  afterwards: in every run the writes attempted, and the exception that ends the run if one
  does, are those of the same run against a store that accepts every write. In every run
  in which the eligibility query does not fail and which is not ended by an exception (from
  the fetch or from the processing of an activity), \<open>success\<close> holds exactly when no write
  failed, \<open>matched\<close> is the number of successful writes, and when a write failed the error
  message states how many did.
\<close>

theorem summary_counts_writes:
  "let run = syncCompletedWorkouts lib userId pelotonUserId peloton supabase timezone;
       accepting = syncCompletedWorkouts lib userId pelotonUserId peloton
                     (allWritesSucceed supabase) timezone
   in
     attempts (calls run) = attempts (calls accepting)
     \<and> caught run = caught accepting
     \<and> (caught run = None \<and> q_error (select_planned supabase userId) = None \<longrightarrow>
          (success (summary run) \<longleftrightarrow> failedWrites (calls run) = 0)
          \<and> matched (summary run) = successfulWrites (calls run)
          \<and> (failedWrites (calls run) > 0 \<longrightarrow>
               error (summary run)
                 = Some (string_of_nat (failedWrites (calls run))
                         @ '' workout(s) failed to update in database'')))"
proof -
  have "select_planned supabase userId = select_planned (allWritesSucceed supabase) userId"
    by (simp add: allWritesSucceed_def)
  from run_attempts_independent [OF this, of lib pelotonUserId peloton timezone]
    run_summary_normal [of lib userId pelotonUserId peloton supabase timezone]
  show ?thesis
    by (simp add: Let_def)
qed

theorem summary_counts_writes_witness:
  "caught scenarioF = None
   \<and> q_error (select_planned (testStore [plannedRow ''pA'' ''r1'' ''2024-01-20'' 0,
                                         plannedRow ''pB'' ''r1'' ''2024-01-20'' 1] [''pB''])
                ''u1'') = None
   \<and> \<not> success (summary scenarioF) \<and> failedWrites (calls scenarioF) = 1
   \<and> matched (summary scenarioF) = 1 \<and> successfulWrites (calls scenarioF) = 1
   \<and> error (summary scenarioF) = Some ''1 workout(s) failed to update in database''
   \<and> attempts (calls scenarioF)
       = attempts (calls (syncCompletedWorkouts testDates ''u1'' ''pu1''
           (testFeed [completeWorkout ''w1'' ''r1'' 1705708800,
                      completeWorkout ''w2'' ''r1'' 1705712400])
           (allWritesSucceed
              (testStore [plannedRow ''pA'' ''r1'' ''2024-01-20'' 0,
                          plannedRow ''pB'' ''r1'' ''2024-01-20'' 1] [''pB'']))
           (Some ''UTC'')))
   \<and> caught (syncCompletedWorkouts testDates ''u1'' ''pu1''
           (testFeed [completeWorkout ''w1'' ''r1'' 1705708800,
                      completeWorkout ''w2'' ''r1'' 1705712400])
           (allWritesSucceed
              (testStore [plannedRow ''pA'' ''r1'' ''2024-01-20'' 0,
                          plannedRow ''pB'' ''r1'' ''2024-01-20'' 1] [''pB'']))
           (Some ''UTC'')) = None"
proof -
  have c: "caught scenarioF = None" by (simp add: scenarioF_run)
  have q: "q_error (select_planned (testStore [plannedRow ''pA'' ''r1'' ''2024-01-20'' 0,
                                         plannedRow ''pB'' ''r1'' ''2024-01-20'' 1] [''pB''])
                ''u1'') = None"
    by (simp add: testStore_def)
  note t = summary_counts_writes
    [of testDates "''u1''" "''pu1''"
        "testFeed [completeWorkout ''w1'' ''r1'' 1705708800,
                   completeWorkout ''w2'' ''r1'' 1705712400]"
        "testStore [plannedRow ''pA'' ''r1'' ''2024-01-20'' 0,
                    plannedRow ''pB'' ''r1'' ''2024-01-20'' 1] [''pB'']" "Some ''UTC''",
     unfolded Let_def, folded scenarioF_def]
  from t have
    "attempts (calls scenarioF)
       = attempts (calls (syncCompletedWorkouts testDates ''u1'' ''pu1''
           (testFeed [completeWorkout ''w1'' ''r1'' 1705708800,
                      completeWorkout ''w2'' ''r1'' 1705712400])
           (allWritesSucceed
              (testStore [plannedRow ''pA'' ''r1'' ''2024-01-20'' 0,
                          plannedRow ''pB'' ''r1'' ''2024-01-20'' 1] [''pB'']))
           (Some ''UTC'')))"
    "caught scenarioF = caught (syncCompletedWorkouts testDates ''u1'' ''pu1''
           (testFeed [completeWorkout ''w1'' ''r1'' 1705708800,
                      completeWorkout ''w2'' ''r1'' 1705712400])
           (allWritesSucceed
              (testStore [plannedRow ''pA'' ''r1'' ''2024-01-20'' 0,
                          plannedRow ''pB'' ''r1'' ''2024-01-20'' 1] [''pB'']))
           (Some ''UTC''))"
    by blast+
  moreover from t c q have
    "matched (summary scenarioF) = successfulWrites (calls scenarioF)"
    "success (summary scenarioF) \<longleftrightarrow> failedWrites (calls scenarioF) = 0"
    by blast+
  ultimately show ?thesis using c q
    by (simp add: scenarioF_run trace_obs_simps)
qed

text \<open>
  Claim C4. The bucket of the candidate index for a date and a ride holds the planned
  workouts of that date and ride, ascending in \<^verbatim>\<open>sort_order\<close>; those with equal
  \<^verbatim>\<open>sort_order\<close> keep the order in which the query returned them. An activity that is
  matched takes the first candidate of the bucket that is not yet attempted, and the
  writes of every run are those of \<open>fifoAssign\<close>, which takes the activities in feed order
  and gives each the first candidate, in that order of the bucket, that no earlier activity
  took. In particular, when the query returns two rows of one ride and day, in either
  order, and the feed holds a single completion of that ride on that day, the only write
  goes to the row with the lower \<^verbatim>\<open>sort_order\<close>.
\<close>

theorem candidates_ordered_first_unattempted:
  "sorted (map m_sort_order (bucket (plannedByDateAndRide rows) d r))
   \<and> filter (\<lambda>c. m_sort_order c = k) (bucket (plannedByDateAndRide rows) d r)
       = map toMatch (filter (\<lambda>pw. pw_scheduled_date pw = d \<and> pw_peloton_ride_id pw = r
                                   \<and> pw_sort_order pw = k) rows)
   \<and> (w_ride w = Some rideId
        \<and> timestampToDateInTimezone lib (w_created_at w) timezone = Inr date
        \<and> w_id w \<notin> matchedPelotonWorkoutIds st
        \<and> bucket idx date rideId = pre @ c # post
        \<and> (\<forall>x\<in>set pre. m_id x \<in> set (attemptedIds st))
        \<and> m_id c \<notin> set (attemptedIds st)
      \<longrightarrow> attemptedIds (fst (matchOne lib supabase timezone idx w st))
            = attemptedIds st @ [m_id c]
          \<and> (newDate (w_created_at w * 1000) \<noteq> None \<longrightarrow>
               attemptedEntries (trace (fst (matchOne lib supabase timezone idx w st)))
                 = attemptedEntries (trace st) @ [m_id c]))
   \<and> attempts (calls (syncCompletedWorkouts lib userId pelotonUserId peloton supabase timezone))
       = fifoAssign lib timezone (candidateRows supabase userId)
           (eligibleActivities peloton pelotonUserId) [] {}
   \<and> (eligibleActivities peloton pelotonUserId = [w]
        \<and> w_ride w = Some rideId
        \<and> timestampToDateInTimezone lib (w_created_at w) timezone = Inr date
        \<and> newDate (w_created_at w * 1000) \<noteq> None
        \<and> select_planned supabase userId = \<lparr>q_data = Some planned, q_error = None\<rparr>
        \<and> (planned = [hi, lo] \<or> planned = [lo, hi])
        \<and> pw_scheduled_date lo = date \<and> pw_scheduled_date hi = date
        \<and> pw_peloton_ride_id lo = rideId \<and> pw_peloton_ride_id hi = rideId
        \<and> pw_sort_order lo < pw_sort_order hi
        \<and> pw_id lo \<noteq> pw_id hi
      \<longrightarrow> attempts (calls (syncCompletedWorkouts lib userId pelotonUserId peloton supabase
                               timezone))
            = [(pw_id lo, writePayload w)]
          \<and> pw_id hi \<notin> set (attemptedEntries
                (calls (syncCompletedWorkouts lib userId pelotonUserId peloton supabase
                          timezone))))"
proof -
  let ?run = "syncCompletedWorkouts lib userId pelotonUserId peloton supabase timezone"
  have first: "attemptedIds (fst (matchOne lib supabase timezone idx w st))
          = attemptedIds st @ [m_id c]
        \<and> (newDate (w_created_at w * 1000) \<noteq> None \<longrightarrow>
               attemptedEntries (trace (fst (matchOne lib supabase timezone idx w st)))
                 = attemptedEntries (trace st) @ [m_id c])"
    if h: "w_ride w = Some rideId"
      "timestampToDateInTimezone lib (w_created_at w) timezone = Inr date"
      "w_id w \<notin> matchedPelotonWorkoutIds st"
      "bucket idx date rideId = pre @ c # post"
      "\<forall>x\<in>set pre. m_id x \<in> set (attemptedIds st)"
      "m_id c \<notin> set (attemptedIds st)"
  proof -
    have "find (\<lambda>c. m_id c \<notin> set (attemptedIds st)) (bucket idx date rideId) = Some c"
      using h(4-6) by (simp add: find_first_unattempted)
    with h(1-3) have "matchOne lib supabase timezone idx w st = issueWrite supabase w c st"
      by (simp add: matchOne_alt)
    then show ?thesis by (simp add: issueWrite_attempted issueWrite_entries)
  qed
  have fifo: "attempts (calls ?run)
       = fifoAssign lib timezone (candidateRows supabase userId)
           (eligibleActivities peloton pelotonUserId) [] {}"
    by (rule run_fifo)
  have two: "attempts (calls ?run) = [(pw_id lo, writePayload w)]
          \<and> pw_id hi \<notin> set (attemptedEntries (calls ?run))"
    if h: "eligibleActivities peloton pelotonUserId = [w]"
      "w_ride w = Some rideId"
      "timestampToDateInTimezone lib (w_created_at w) timezone = Inr date"
      "newDate (w_created_at w * 1000) \<noteq> None"
      "select_planned supabase userId = \<lparr>q_data = Some planned, q_error = None\<rparr>"
      "planned = [hi, lo] \<or> planned = [lo, hi]"
      "pw_scheduled_date lo = date" "pw_scheduled_date hi = date"
      "pw_peloton_ride_id lo = rideId" "pw_peloton_ride_id hi = rideId"
      "pw_sort_order lo < pw_sort_order hi"
      "pw_id lo \<noteq> pw_id hi"
  proof -
    have rows: "candidateRows supabase userId = planned"
      using h(5) by (simp add: candidateRows_def eligiblePlanned_def)
    have "candidatesFor planned date rideId = [lo, hi]"
      using h(6-11) by (auto simp: candidatesFor_def)
    then have "fifoAssign lib timezone planned [w] [] {} = [(pw_id lo, writePayload w)]"
      using h(2-4) by simp
    with fifo rows h(1) have a: "attempts (calls ?run) = [(pw_id lo, writePayload w)]"
      by simp
    then have "attemptedEntries (calls ?run) = [pw_id lo]"
      by (simp add: attemptedEntries_attempts)
    with a h(12) show ?thesis by simp
  qed
  from first fifo two bucket_sorted [of rows d r] bucket_stable [of k rows d r]
  show ?thesis by blast
qed

theorem candidates_ordered_first_unattempted_witness:
  "w_ride (completeWorkout ''w1'' ''r1'' 1705708800) = Some ''r1''
   \<and> timestampToDateInTimezone testDates
         (w_created_at (completeWorkout ''w1'' ''r1'' 1705708800)) (Some ''UTC'')
       = Inr ''2024-01-20''
   \<and> w_id (completeWorkout ''w1'' ''r1'' 1705708800) \<notin> matchedPelotonWorkoutIds pB_attempted
   \<and> bucket (plannedByDateAndRide scenarioC_rows) ''2024-01-20'' ''r1''
       = [toMatch (plannedRow ''pB'' ''r1'' ''2024-01-20'' 0)]
         @ toMatch (plannedRow ''pA'' ''r1'' ''2024-01-20'' 1) # []
   \<and> m_id (toMatch (plannedRow ''pB'' ''r1'' ''2024-01-20'' 0)) \<in> set (attemptedIds pB_attempted)
   \<and> m_id (toMatch (plannedRow ''pA'' ''r1'' ''2024-01-20'' 1)) \<notin> set (attemptedIds pB_attempted)
   \<and> newDate (w_created_at (completeWorkout ''w1'' ''r1'' 1705708800) * 1000) \<noteq> None
   \<and> attemptedIds
        (fst (matchOne testDates (testStore scenarioC_rows []) (Some ''UTC'')
                (plannedByDateAndRide scenarioC_rows)
                (completeWorkout ''w1'' ''r1'' 1705708800) pB_attempted))
       = [''pB'', ''pA'']
   \<and> attemptedEntries
        (trace (fst (matchOne testDates (testStore scenarioC_rows []) (Some ''UTC'')
                (plannedByDateAndRide scenarioC_rows)
                (completeWorkout ''w1'' ''r1'' 1705708800) pB_attempted)))
       = [''pA'']
   \<and> eligibleActivities (testFeed [completeWorkout ''w1'' ''r1'' 1705708800]) ''pu1''
       = [completeWorkout ''w1'' ''r1'' 1705708800]
   \<and> select_planned (testStore scenarioC_rows []) ''u1''
       = \<lparr>q_data = Some scenarioC_rows, q_error = None\<rparr>
   \<and> scenarioC_rows = [plannedRow ''pA'' ''r1'' ''2024-01-20'' 1,
                        plannedRow ''pB'' ''r1'' ''2024-01-20'' 0]
   \<and> pw_scheduled_date (plannedRow ''pB'' ''r1'' ''2024-01-20'' 0) = ''2024-01-20''
   \<and> pw_scheduled_date (plannedRow ''pA'' ''r1'' ''2024-01-20'' 1) = ''2024-01-20''
   \<and> pw_peloton_ride_id (plannedRow ''pB'' ''r1'' ''2024-01-20'' 0) = ''r1''
   \<and> pw_peloton_ride_id (plannedRow ''pA'' ''r1'' ''2024-01-20'' 1) = ''r1''
   \<and> pw_sort_order (plannedRow ''pB'' ''r1'' ''2024-01-20'' 0)
       < pw_sort_order (plannedRow ''pA'' ''r1'' ''2024-01-20'' 1)
   \<and> pw_id (plannedRow ''pB'' ''r1'' ''2024-01-20'' 0)
       \<noteq> pw_id (plannedRow ''pA'' ''r1'' ''2024-01-20'' 1)
   \<and> attempts (calls (syncCompletedWorkouts testDates ''u1'' ''pu1''
                         (testFeed [completeWorkout ''w1'' ''r1'' 1705708800])
                         (testStore scenarioC_rows []) (Some ''UTC'')))
       = [(''pB'', payloadFor ''w1'' 1705708800)]
   \<and> ''pA'' \<notin> set (attemptedEntries
         (calls (syncCompletedWorkouts testDates ''u1'' ''pu1''
                   (testFeed [completeWorkout ''w1'' ''r1'' 1705708800])
                   (testStore scenarioC_rows []) (Some ''UTC''))))"
proof -
  let ?w = "completeWorkout ''w1'' ''r1'' 1705708800"
  let ?pA = "plannedRow ''pA'' ''r1'' ''2024-01-20'' 1"
  let ?pB = "plannedRow ''pB'' ''r1'' ''2024-01-20'' 0"
  let ?run = "syncCompletedWorkouts testDates ''u1'' ''pu1'' (testFeed [?w])
                (testStore scenarioC_rows []) (Some ''UTC'')"
  have h1: "w_ride ?w = Some ''r1''" by (simp add: completeWorkout_def)
  have h2: "timestampToDateInTimezone testDates (w_created_at ?w) (Some ''UTC'')
              = Inr ''2024-01-20''"
    by (simp add: run_defs)
  have h3: "w_id ?w \<notin> matchedPelotonWorkoutIds pB_attempted"
    by (simp add: pB_attempted_def initState_def)
  have h4: "bucket (plannedByDateAndRide scenarioC_rows) ''2024-01-20'' ''r1''
              = [toMatch ?pB] @ toMatch ?pA # []"
    by (simp add: bucket_planned scenarioC_rows_def plannedRow_def toMatch_def)
  have h5: "\<forall>x\<in>set [toMatch ?pB]. m_id x \<in> set (attemptedIds pB_attempted)"
    by (simp add: pB_attempted_def initState_def plannedRow_def toMatch_def)
  have h6: "m_id (toMatch ?pA) \<notin> set (attemptedIds pB_attempted)"
    by (simp add: pB_attempted_def initState_def plannedRow_def toMatch_def)
  have h7: "newDate (w_created_at ?w * 1000) \<noteq> None"
    by (simp add: completeWorkout_def newDate_def)
  have g1: "eligibleActivities (testFeed [?w]) ''pu1'' = [?w]"
    by (simp add: eligibleActivities_def getUserWorkouts_def testFeed_def
        isCompleteWithRide_def completeWorkout_def)
  have g2: "select_planned (testStore scenarioC_rows []) ''u1''
              = \<lparr>q_data = Some scenarioC_rows, q_error = None\<rparr>"
    by (simp add: testStore_def)
  have g3: "scenarioC_rows = [?pA, ?pB]" by (simp add: scenarioC_rows_def)
  have g4: "pw_scheduled_date ?pB = ''2024-01-20''" "pw_scheduled_date ?pA = ''2024-01-20''"
    "pw_peloton_ride_id ?pB = ''r1''" "pw_peloton_ride_id ?pA = ''r1''"
    "pw_sort_order ?pB < pw_sort_order ?pA" "pw_id ?pB \<noteq> pw_id ?pA"
    by (simp_all add: plannedRow_def)
  have a: "attemptedIds pB_attempted = [''pB'']"
    "attemptedEntries (trace pB_attempted) = []"
    by (simp_all add: pB_attempted_def initState_def trace_obs_simps)
  have m: "m_id (toMatch ?pA) = ''pA''" "pw_id ?pB = ''pB''" "pw_id ?pA = ''pA''"
    "writePayload ?w = payloadFor ''w1'' 1705708800"
    by (simp_all add: plannedRow_def toMatch_def writePayload_def payloadFor_def
        completeWorkout_def)
  note t = candidates_ordered_first_unattempted
    [where w = ?w and rideId = "''r1''" and lib = testDates and timezone = "Some ''UTC''"
       and date = "''2024-01-20''" and st = pB_attempted
       and idx = "plannedByDateAndRide scenarioC_rows" and pre = "[toMatch ?pB]"
       and c = "toMatch ?pA" and post = "[]" and supabase = "testStore scenarioC_rows []"
       and userId = "''u1''" and pelotonUserId = "''pu1''" and peloton = "testFeed [?w]"
       and planned = scenarioC_rows and hi = ?pA and lo = ?pB]
  from t h1 h2 h3 h4 h5 h6 h7
  have s1: "attemptedIds
        (fst (matchOne testDates (testStore scenarioC_rows []) (Some ''UTC'')
                (plannedByDateAndRide scenarioC_rows) ?w pB_attempted))
       = attemptedIds pB_attempted @ [m_id (toMatch ?pA)]
     \<and> attemptedEntries
        (trace (fst (matchOne testDates (testStore scenarioC_rows []) (Some ''UTC'')
                (plannedByDateAndRide scenarioC_rows) ?w pB_attempted)))
       = attemptedEntries (trace pB_attempted) @ [m_id (toMatch ?pA)]"
    by blast
  from t g1 h1 h2 h7 g2 g3 g4
  have s2: "attempts (calls ?run) = [(pw_id ?pB, writePayload ?w)]
     \<and> pw_id ?pA \<notin> set (attemptedEntries (calls ?run))"
    by blast
  from h5 have h5': "m_id (toMatch ?pB) \<in> set (attemptedIds pB_attempted)" by simp
  from s1 have s1': "attemptedIds
        (fst (matchOne testDates (testStore scenarioC_rows []) (Some ''UTC'')
                (plannedByDateAndRide scenarioC_rows) ?w pB_attempted))
       = [''pB'', ''pA'']
     \<and> attemptedEntries
        (trace (fst (matchOne testDates (testStore scenarioC_rows []) (Some ''UTC'')
                (plannedByDateAndRide scenarioC_rows) ?w pB_attempted)))
       = [''pA'']"
    by (simp add: a m)
  from s2 have s2': "attempts (calls ?run) = [(''pB'', payloadFor ''w1'' 1705708800)]
     \<and> ''pA'' \<notin> set (attemptedEntries (calls ?run))"
    by (simp add: m)
  from h1 h2 h3 h4 h5' h6 h7 s1' g1 g2 g3 g4 s2' show ?thesis by blast
qed

text \<open>
  Claim C5, as stated: for every instant and every supplied timezone the resolution returns
  a date string and never fails the run. It fails for an instant outside the range of a
  \<^verbatim>\<open>Date\<close>: with \<^verbatim>\<open>created_at = 10000000000000\<close> the final \<^verbatim>\<open>format(date, ...)\<close> raises
  (as date-fns does on Invalid Date, and as \<open>testDates\<close> does), with or without a zone, and
  \<open>raisingRun\<close> ends in the top-level \<^verbatim>\<open>catch\<close>.
\<close>

theorem resolver_returns_in_range_counterexample:
  "timestampToDateInTimezone testDates 10000000000000 (Some ''UTC'')
     = Inl (ErrorObj ''Invalid time value'')
   \<and> timestampToDateInTimezone testDates 10000000000000 None
     = Inl (ErrorObj ''Invalid time value'')
   \<and> caught raisingRun = Some (ErrorObj ''Invalid time value'')
   \<and> \<not> success (summary raisingRun)"
  by (simp add: raisingRun_run timestampToDateInTimezone_def isValidTimezone_def newDate_def
      testDates_def formatTwoDays_def)

text \<open>
  Claim C5, amended: for every instant that \<^verbatim>\<open>format\<close> itself can render (for date-fns:
  every instant in the range of a \<^verbatim>\<open>Date\<close>) and every supplied timezone, the resolution
  returns a string, and a string it returns is one that \<^verbatim>\<open>format(_, "yyyy-MM-dd")\<close>
  produced. With a zone name that is recognised, and a conversion and formatting that
  return, the string is the formatted date of the instant converted to that zone (with a
  library that puts \<^verbatim>\<open>America/Los_Angeles\<close> eight hours behind UTC, 2024-01-20T06:00:00Z
  resolves to 2024-01-19). With an absent, empty or unrecognised zone name the string is
  the process-local formatting of the instant. A run whose fetch returns and whose
  eligible activities all carry such an instant is not ended by an exception.
\<close>

theorem resolver_returns_in_range:
  "(format_ymd lib (newDate (timestamp * 1000)) = Inr local \<longrightarrow>
      (\<exists>s. timestampToDateInTimezone lib timestamp timezone = Inr s)
      \<and> (fallbackZone = None \<or> fallbackZone = Some []
           \<or> (\<exists>z. fallbackZone = Some z \<and> \<not> tz_known lib z)
         \<longrightarrow> timestampToDateInTimezone lib timestamp fallbackZone = Inr local))
   \<and> (zone \<noteq> [] \<and> tz_known lib zone
        \<and> toZonedTime lib (newDate (timestamp * 1000)) zone = Inr zonedDate
        \<and> format_ymd lib zonedDate = Inr zoned
      \<longrightarrow> timestampToDateInTimezone lib timestamp (Some zone) = Inr zoned)
   \<and> (timestampToDateInTimezone lib timestamp timezone = Inr out
      \<longrightarrow> (\<exists>d. format_ymd lib d = Inr out))
   \<and> (getUserWorkouts peloton pelotonUserId \<lparr>opt_limit = 20, opt_joins = ''ride''\<rparr>
          = Inr response
        \<and> (\<forall>w\<in>set (filter isCompleteWithRide (r_data response)).
              (\<exists>l. format_ymd lib (newDate (w_created_at w * 1000)) = Inr l)
              \<and> newDate (w_created_at w * 1000) \<noteq> None)
      \<longrightarrow> caught (syncCompletedWorkouts lib userId pelotonUserId peloton supabase runZone)
            = None)"
proof -
  have a: "\<exists>s. timestampToDateInTimezone lib timestamp timezone = Inr s"
    if "format_ymd lib (newDate (timestamp * 1000)) = Inr local"
    using that by (rule resolver_returns)
  have b: "timestampToDateInTimezone lib timestamp fallbackZone = Inr local"
    if "format_ymd lib (newDate (timestamp * 1000)) = Inr local"
      and "fallbackZone = None \<or> fallbackZone = Some []
           \<or> (\<exists>z. fallbackZone = Some z \<and> \<not> tz_known lib z)"
    using resolver_fallback [OF that(2), of timestamp] that(1) by simp
  have c: "timestampToDateInTimezone lib timestamp (Some zone) = Inr zoned"
    if "zone \<noteq> []" "tz_known lib zone"
      "toZonedTime lib (newDate (timestamp * 1000)) zone = Inr zonedDate"
      "format_ymd lib zonedDate = Inr zoned"
    using that by (rule resolver_zoned)
  have d: "\<exists>d. format_ymd lib d = Inr out"
    if "timestampToDateInTimezone lib timestamp timezone = Inr out"
    using that by (rule resolver_output)
  have e: "caught (syncCompletedWorkouts lib userId pelotonUserId peloton supabase runZone) = None"
    if "getUserWorkouts peloton pelotonUserId \<lparr>opt_limit = 20, opt_joins = ''ride''\<rparr>
          = Inr response"
      and "\<forall>w\<in>set (filter isCompleteWithRide (r_data response)).
              (\<exists>l. format_ymd lib (newDate (w_created_at w * 1000)) = Inr l)
              \<and> newDate (w_created_at w * 1000) \<noteq> None"
    using that by (rule run_no_raise)
  from a b c d e show ?thesis by blast
qed

theorem resolver_returns_in_range_witness:
  "format_ymd pacificDates (newDate (1705730400 * 1000)) = Inr ''2024-01-20''
   \<and> timestampToDateInTimezone pacificDates 1705730400 (Some ''America/Los_Angeles'')
       = Inr ''2024-01-19''
   \<and> \<not> tz_known pacificDates ''Mars/Olympus''
   \<and> timestampToDateInTimezone pacificDates 1705730400 (Some ''Mars/Olympus'')
       = Inr ''2024-01-20''
   \<and> ''America/Los_Angeles'' \<noteq> [] \<and> tz_known pacificDates ''America/Los_Angeles''
   \<and> toZonedTime pacificDates (newDate (1705730400 * 1000)) ''America/Los_Angeles''
       = Inr (Some 1705701600000)
   \<and> format_ymd pacificDates (Some 1705701600000) = Inr ''2024-01-19''
   \<and> getUserWorkouts (testFeed [completeWorkout ''w1'' ''r1'' 1705730400]) ''pu1''
        \<lparr>opt_limit = 20, opt_joins = ''ride''\<rparr>
       = Inr \<lparr>r_data = [completeWorkout ''w1'' ''r1'' 1705730400]\<rparr>
   \<and> filter isCompleteWithRide [completeWorkout ''w1'' ''r1'' 1705730400]
       = [completeWorkout ''w1'' ''r1'' 1705730400]
   \<and> newDate (w_created_at (completeWorkout ''w1'' ''r1'' 1705730400) * 1000) \<noteq> None
   \<and> caught scenarioD = None
   \<and> attemptedEntries (calls scenarioD) = [''pA'']"
proof -
  let ?la = "''America/Los_Angeles''"
  let ?w = "completeWorkout ''w1'' ''r1'' 1705730400"
  have h1: "format_ymd pacificDates (newDate (1705730400 * 1000)) = Inr ''2024-01-20''"
    by (simp add: pacificDates_def formatTwoDays_def newDate_def)
  have h2: "Some ''Mars/Olympus'' = None \<or> Some ''Mars/Olympus'' = Some []
           \<or> (\<exists>z. Some ''Mars/Olympus'' = Some z \<and> \<not> tz_known pacificDates z)"
    by (simp add: pacificDates_def)
  have h2': "\<not> tz_known pacificDates ''Mars/Olympus''" by (simp add: pacificDates_def)
  have h3: "?la \<noteq> []" "tz_known pacificDates ?la"
    "toZonedTime pacificDates (newDate (1705730400 * 1000)) ?la = Inr (Some 1705701600000)"
    "format_ymd pacificDates (Some 1705701600000) = Inr ''2024-01-19''"
    by (simp_all add: pacificDates_def formatTwoDays_def newDate_def)
  have h4: "getUserWorkouts (testFeed [?w]) ''pu1'' \<lparr>opt_limit = 20, opt_joins = ''ride''\<rparr>
              = Inr \<lparr>r_data = [?w]\<rparr>"
    by (simp add: getUserWorkouts_def testFeed_def)
  have h5: "filter isCompleteWithRide [?w] = [?w]"
    by (simp add: isCompleteWithRide_def completeWorkout_def)
  have h6: "format_ymd pacificDates (newDate (w_created_at ?w * 1000)) = Inr ''2024-01-20''"
    "newDate (w_created_at ?w * 1000) \<noteq> None"
    by (simp_all add: pacificDates_def formatTwoDays_def newDate_def completeWorkout_def)
  have h7: "\<forall>w\<in>set (filter isCompleteWithRide (r_data \<lparr>r_data = [?w]\<rparr>)).
              (\<exists>l. format_ymd pacificDates (newDate (w_created_at w * 1000)) = Inr l)
              \<and> newDate (w_created_at w * 1000) \<noteq> None"
    using h5 h6 by simp
  note t = resolver_returns_in_range
    [where lib = pacificDates and timestamp = 1705730400 and local = "''2024-01-20''"
       and timezone = "Some ?la" and fallbackZone = "Some ''Mars/Olympus''"
       and zone = ?la and zonedDate = "Some 1705701600000" and zoned = "''2024-01-19''"
       and out = "''2024-01-19''" and peloton = "testFeed [?w]" and pelotonUserId = "''pu1''"
       and response = "\<lparr>r_data = [?w]\<rparr>" and userId = "''u1''"
       and supabase = "testStore [plannedRow ''pA'' ''r1'' ''2024-01-19'' 0] []"
       and runZone = "Some ?la", folded scenarioD_def]
  from t h1 h2 have r1: "timestampToDateInTimezone pacificDates 1705730400
      (Some ''Mars/Olympus'') = Inr ''2024-01-20''"
    by blast
  from t h3 have r2: "timestampToDateInTimezone pacificDates 1705730400 (Some ?la)
      = Inr ''2024-01-19''"
    by blast
  from t h4 h7 have r3: "caught scenarioD = None" by blast
  have r4: "attemptedEntries (calls scenarioD) = [''pA'']"
    by (simp add: scenarioD_run trace_obs_simps)
  from h1 r2 h2' r1 h3 h4 h5 h6(2) r3 r4 show ?thesis by blast
qed

text \<open>
  Claim C6. In every run, \<open>matched\<close> is at most the number of fetched workouts that pass
  the filter (status \<^verbatim>\<open>COMPLETE\<close>, ride id present) and at most the number of planned
  workouts the eligibility query returned.
\<close>

theorem matched_le_min:
  "matched (summary (syncCompletedWorkouts lib userId pelotonUserId peloton supabase timezone))
     \<le> min (length (eligibleActivities peloton pelotonUserId))
            (length (eligiblePlanned supabase userId))"
  using matched_le_both [of lib userId pelotonUserId peloton supabase timezone] by simp

text \<open>
  Claim C7. In every run in which the eligibility query is issued and answers with an
  error, the summary is \<^verbatim>\<open>{success: false, matched: 0}\<close> with the message of the error
  behind the prefix \<^verbatim>\<open>Failed to fetch planned workouts: \<close>, and no update is issued.
\<close>

theorem query_failure_aborts:
  assumes "SelectEv u q
             \<in> set (calls (syncCompletedWorkouts lib userId pelotonUserId peloton supabase timezone))"
    and "q_error q = Some msg"
  shows "let run = syncCompletedWorkouts lib userId pelotonUserId peloton supabase timezone in
         summary run = \<lparr>success = False, matched = 0,
                         error = Some (''Failed to fetch planned workouts: '' @ msg)\<rparr>
         \<and> writes (calls run) = []
         \<and> calls run = [SelectEv userId q]"
proof -
  let ?run = "syncCompletedWorkouts lib userId pelotonUserId peloton supabase timezone"
  from assms(1) have "(u, q) \<in> set (queries (calls ?run))" by (simp add: queries_mem)
  with run_calls_cases [of lib userId pelotonUserId peloton supabase timezone]
  have q: "q = select_planned supabase userId" and ne: "calls ?run \<noteq> []"
    by auto
  have e: "q_error (select_planned supabase userId) = Some msg" using assms(2) q by simp
  have "summary ?run = \<lparr>success = False, matched = 0,
                         error = Some (''Failed to fetch planned workouts: '' @ msg)\<rparr>
         \<and> writes (calls ?run) = []
         \<and> calls ?run = [SelectEv userId q]"
  proof (cases "getUserWorkouts peloton pelotonUserId \<lparr>opt_limit = 20, opt_joins = ''ride''\<rparr>")
    case (Inl x)
    with ne show ?thesis by (simp add: syncCompletedWorkouts_def)
  next
    case (Inr response)
    with ne e q show ?thesis
      by (auto simp: syncCompletedWorkouts_def Let_def split: if_splits)
  qed
  then show ?thesis by (simp add: Let_def)
qed

theorem query_failure_aborts_witness:
  "SelectEv ''u1'' \<lparr>q_data = None, q_error = Some ''connection refused''\<rparr> \<in> set (calls brokenRun)
   \<and> q_error \<lparr>q_data = None, q_error = Some ''connection refused''\<rparr> = Some ''connection refused''
   \<and> summary brokenRun
       = \<lparr>success = False, matched = 0,
          error = Some ''Failed to fetch planned workouts: connection refused''\<rparr>
   \<and> writes (calls brokenRun) = []"
proof -
  have h1: "SelectEv ''u1'' \<lparr>q_data = None, q_error = Some ''connection refused''\<rparr>
              \<in> set (calls brokenRun)"
    by (simp add: brokenRun_run)
  have h2: "q_error \<lparr>q_data = None, q_error = Some ''connection refused''\<rparr>
              = Some ''connection refused''"
    by simp
  from query_failure_aborts [OF h1 [unfolded brokenRun_def] h2, folded brokenRun_def,
      unfolded Let_def] h1 h2
  show ?thesis by simp
qed

text \<open>
  Claim C8. In every run in which no fetched workout passes the filter (status
  \<^verbatim>\<open>COMPLETE\<close>, ride id present), the summary is \<^verbatim>\<open>{success: true, matched: 0}\<close> and the
  store is neither queried nor updated.
\<close>

theorem no_eligible_activity_no_store_call:
  assumes "getUserWorkouts peloton pelotonUserId \<lparr>opt_limit = 20, opt_joins = ''ride''\<rparr>
             = Inr response"
    and "filter isCompleteWithRide (r_data response) = []"
  shows "let run = syncCompletedWorkouts lib userId pelotonUserId peloton supabase timezone in
         summary run = \<lparr>success = True, matched = 0, error = None\<rparr> \<and> calls run = []"
  using assms by (simp add: syncCompletedWorkouts_def)

theorem no_eligible_activity_no_store_call_witness:
  "getUserWorkouts idleFeed ''pu1'' \<lparr>opt_limit = 20, opt_joins = ''ride''\<rparr>
     = Inr \<lparr>r_data =
         [\<lparr>w_id = ''w1'', w_status = ''IN_PROGRESS'', w_ride = Some ''r1'',
           w_created_at = 1705708800\<rparr>,
          \<lparr>w_id = ''w2'', w_status = ''COMPLETE'', w_ride = None,
           w_created_at = 1705708800\<rparr>]\<rparr>
   \<and> filter isCompleteWithRide
        [\<lparr>w_id = ''w1'', w_status = ''IN_PROGRESS'', w_ride = Some ''r1'',
          w_created_at = 1705708800\<rparr>,
         \<lparr>w_id = ''w2'', w_status = ''COMPLETE'', w_ride = None,
          w_created_at = 1705708800\<rparr>] = []
   \<and> summary (syncCompletedWorkouts testDates ''u1'' ''pu1'' idleFeed
                 (testStore scenarioC_rows []) (Some ''UTC''))
       = \<lparr>success = True, matched = 0, error = None\<rparr>
   \<and> calls (syncCompletedWorkouts testDates ''u1'' ''pu1'' idleFeed
               (testStore scenarioC_rows []) (Some ''UTC'')) = []"
proof -
  let ?ws = "[\<lparr>w_id = ''w1'', w_status = ''IN_PROGRESS'', w_ride = Some ''r1'',
           w_created_at = 1705708800\<rparr>,
          \<lparr>w_id = ''w2'', w_status = ''COMPLETE'', w_ride = None,
           w_created_at = 1705708800\<rparr>]"
  have h1: "getUserWorkouts idleFeed ''pu1'' \<lparr>opt_limit = 20, opt_joins = ''ride''\<rparr>
              = Inr \<lparr>r_data = ?ws\<rparr>"
    by (simp add: getUserWorkouts_def idleFeed_def testFeed_def)
  have h2: "filter isCompleteWithRide (r_data \<lparr>r_data = ?ws\<rparr>) = []"
    by (simp add: isCompleteWithRide_def)
  from no_eligible_activity_no_store_call [OF h1 h2, of testDates "''u1''"
      "testStore scenarioC_rows []" "Some ''UTC''", unfolded Let_def] h1 h2
  show ?thesis by simp
qed

text \<open>
  Claim C9. In every run, \<open>matched\<close> is at most 20: the fetch asks for a page of 20
  workouts, and every successful write belongs to a different fetched workout. The bound
  on the page is that of \<open>getUserWorkouts\<close>; the function does not shorten the response
  itself.
\<close>

theorem matched_le_page_limit:
  "matched (summary (syncCompletedWorkouts lib userId pelotonUserId peloton supabase timezone))
     \<le> 20"
  using matched_le_both [of lib userId pelotonUserId peloton supabase timezone]
    eligibleActivities_le [of peloton pelotonUserId] by linarith

text \<open>
  Claim C10. On every return path of a run (the early returns, the normal end and the
  top-level \<^verbatim>\<open>catch\<close>), \<open>success\<close> is true exactly when the summary carries no error.
\<close>

theorem success_iff_no_error:
  "success (summary (syncCompletedWorkouts lib userId pelotonUserId peloton supabase timezone))
     \<longleftrightarrow> error (summary (syncCompletedWorkouts lib userId pelotonUserId peloton supabase
                             timezone)) = None"
  by (auto simp: syncCompletedWorkouts_def Let_def caughtResult_def
      split: sum.splits option.splits prod.splits)

end
